theory Spec2Isabelle
  imports Main
begin

section \<open>Rendering numbers and searching strings\<close>

text \<open>
  Template strings of the monitor render numbers in decimal, and the probes search the
  captured output with \<open>String.prototype.includes\<close>. Both are written out here.
\<close>

definition digit_char :: "nat \<Rightarrow> char" where
  "digit_char d = ''0123456789'' ! d"

fun show_nat :: "nat \<Rightarrow> string" where
  "show_nat n = (if n < 10 then [digit_char n] else show_nat (n div 10) @ [digit_char (n mod 10)])"

declare show_nat.simps [simp del]

definition show_int :: "int \<Rightarrow> string" where
  "show_int i = (if i < 0 then CHR ''-'' # show_nat (nat (- i)) else show_nat (nat i))"

fun starts_with :: "string \<Rightarrow> string \<Rightarrow> bool" where
  "starts_with [] s = True"
| "starts_with (p # ps) [] = False"
| "starts_with (p # ps) (c # cs) = (p = c \<and> starts_with ps cs)"

fun str_includes :: "string \<Rightarrow> string \<Rightarrow> bool" where
  "str_includes needle [] = (needle = [])"
| "str_includes needle (c # cs) = (starts_with needle (c # cs) \<or> str_includes needle cs)"

section \<open>The ping probe\<close>

text \<open>
  \<open>PING_IN_MILLISECONDS = isLinux ? 1000 : 1\<close>; the platform test is a parameter.
  Timeouts are integral milliseconds, so \<open>Math.floor (timeout / k)\<close> is \<open>div\<close>.
\<close>

definition PING_IN_MILLISECONDS :: "bool \<Rightarrow> int" where
  "PING_IN_MILLISECONDS isLinux = (if isLinux then 1000 else 1)"

definition ping_wait :: "bool \<Rightarrow> int \<Rightarrow> int" where
  "ping_wait isLinux timeout = timeout div PING_IN_MILLISECONDS isLinux"

definition ping_command :: "bool \<Rightarrow> string \<Rightarrow> int \<Rightarrow> string" where
  "ping_command isLinux target timeout =
     ''ping -c 1 -W '' @ show_int (ping_wait isLinux timeout) @ '' '' @ target"

text \<open>What \<open>execPromise\<close> does with the command: it yields the two streams or it rejects.\<close>

datatype exec_outcome = ExecDone string string | ExecRejected

definition ping :: "exec_outcome \<Rightarrow> bool" where
  "ping out = (case out of
       ExecDone stdout stderr \<Rightarrow>
         stderr = [] \<and>
         (str_includes ''1 packets transmitted, 1 received, 0% packet loss'' stdout
          \<or> str_includes ''1 packets received'' stdout)
     | ExecRejected \<Rightarrow> False)"

section \<open>Parsed JSON values and dot paths\<close>

text \<open>
  A response body is what \<open>JSON.parse\<close> returns: null, a boolean, a number, a string, an
  array or an object (its own properties as an association list, a key bound by its first
  entry). Numbers are the integral ones.
\<close>

datatype json =
    JNull
  | JBool bool
  | JNum int
  | JStr string
  | JArr "json list"
  | JObj "(string \<times> json) list"

text \<open>
  What a property read can yield: \<open>undefined\<close>, a parsed value, or an object of the runtime
  (a built-in function or prototype object), named.
\<close>

datatype jsval = Undefined | Val json | Native string

datatype js_error = ReadOfNullish | ThrowingAccessor

text \<open>
  The members a parsed value owns: the keys of an object, the indices of an array or string
  written in decimal, and \<open>length\<close> of an array or string. \<open>Undefined\<close>: it owns no such
  member.
\<close>

fun own_member :: "json \<Rightarrow> string \<Rightarrow> jsval" where
  "own_member (JObj kvs) p = (case map_of kvs p of None \<Rightarrow> Undefined | Some v \<Rightarrow> Val v)"
| "own_member (JArr xs) p =
     (if p = ''length'' then Val (JNum (int (length xs)))
      else case map_of (zip (map show_nat [0..<length xs]) xs) p of
             None \<Rightarrow> Undefined | Some v \<Rightarrow> Val v)"
| "own_member (JStr cs) p =
     (if p = ''length'' then Val (JNum (int (length cs)))
      else case map_of (zip (map show_nat [0..<length cs]) cs) p of
             None \<Rightarrow> Undefined | Some c \<Rightarrow> Val (JStr [c]))"
| "own_member (JNum n) p = Undefined"
| "own_member (JBool b) p = Undefined"
| "own_member JNull p = Undefined"

text \<open>
  A property read that the value does not satisfy itself goes on along its prototype chain,
  which belongs to the runtime and not to this program; it is a parameter. \<open>rt_inherited\<close>
  is the read of a name along the prototype chain of a parsed value (one that is not
  null), \<open>rt_native\<close> the read of a name on an object of the runtime. Either yields a value
  (\<open>Got Undefined\<close> when the chain has no such member) or meets an accessor that throws.
\<close>

datatype read_outcome = Got jsval | Throws

record runtime =
  rt_inherited :: "json \<Rightarrow> string \<Rightarrow> read_outcome"
  rt_native :: "string \<Rightarrow> string \<Rightarrow> read_outcome"

fun read_result :: "read_outcome \<Rightarrow> js_error + jsval" where
  "read_result (Got v) = Inr v"
| "read_result Throws = Inl ThrowingAccessor"

text \<open>The plain read \<open>current[prop]\<close> throws on null and undefined.\<close>

fun get_prop :: "runtime \<Rightarrow> jsval \<Rightarrow> string \<Rightarrow> js_error + jsval" where
  "get_prop rt Undefined p = Inl ReadOfNullish"
| "get_prop rt (Val v) p =
     (if v = JNull then Inl ReadOfNullish
      else case own_member v p of
             Undefined \<Rightarrow> read_result (rt_inherited rt v p)
           | own \<Rightarrow> Inr own)"
| "get_prop rt (Native n) p = read_result (rt_native rt n p)"

text \<open>The optional read \<open>current?.[prop]\<close> short-circuits on null and undefined.\<close>

definition opt_get :: "runtime \<Rightarrow> jsval \<Rightarrow> string \<Rightarrow> js_error + jsval" where
  "opt_get rt cur p =
     (if cur = Undefined \<or> cur = Val JNull then Inr Undefined else get_prop rt cur p)"

text \<open>\<open>path.split('.')\<close>: never the empty list; the empty path is one empty segment.\<close>

fun split_dot :: "string \<Rightarrow> string list" where
  "split_dot [] = [[]]"
| "split_dot (c # cs) =
     (if c = CHR ''.'' then [] # split_dot cs
      else case split_dot cs of [] \<Rightarrow> [[c]] | seg # segs \<Rightarrow> (c # seg) # segs)"

text \<open>\<open>reduce((current, prop) => current?.[prop], obj)\<close>; a throw ends the reduction.\<close>

fun reduce_path :: "runtime \<Rightarrow> jsval \<Rightarrow> string list \<Rightarrow> js_error + jsval" where
  "reduce_path rt cur [] = Inr cur"
| "reduce_path rt cur (p # ps) =
     (case opt_get rt cur p of Inl e \<Rightarrow> Inl e | Inr v \<Rightarrow> reduce_path rt v ps)"

definition getValueByPath :: "runtime \<Rightarrow> json \<Rightarrow> string \<Rightarrow> js_error + jsval" where
  "getValueByPath rt obj path = reduce_path rt (Val obj) (split_dot path)"

text \<open>
  Strict equality \<open>===\<close> of the resolved value and the configured one: primitives compare
  by value; an array or object of the parsed body is never the configured object; an object
  of the runtime is only itself.
\<close>

fun strict_eq :: "jsval \<Rightarrow> jsval \<Rightarrow> bool" where
  "strict_eq Undefined Undefined = True"
| "strict_eq (Val JNull) (Val JNull) = True"
| "strict_eq (Val (JBool a)) (Val (JBool b)) = (a = b)"
| "strict_eq (Val (JNum a)) (Val (JNum b)) = (a = b)"
| "strict_eq (Val (JStr a)) (Val (JStr b)) = (a = b)"
| "strict_eq (Native a) (Native b) = (a = b)"
| "strict_eq _ _ = False"

section \<open>The API probe\<close>

text \<open>
  How a probe or a check can fail to yield a value. \<open>Thrown\<close>: the promise rejects with an
  error of that message, which a \<open>try\<close> around the \<open>await\<close> catches. \<open>Uncaught\<close>: an
  emitter emits \<open>error\<close> and has no listener for it, so the error is thrown from the event
  loop, outside every \<open>try\<close> of the monitor, and the process ends.
\<close>

datatype fault = Thrown string | Uncaught string

record expected_response =
  er_path :: string
  er_value :: jsval

record check_details =
  cd_path :: string
  cd_expected :: jsval
  cd_actual :: jsval
  cd_match :: bool
  cd_parseError :: bool

text \<open>
  The object \<open>checkApi\<close> resolves with. \<open>api_responseOk\<close> is \<open>true\<close>, \<open>false\<close> or
  \<open>null\<close> (\<open>None\<close>); \<open>api_statusCode\<close> and \<open>api_error\<close> are \<open>null\<close> when \<open>None\<close>.
\<close>

record api_result =
  api_success :: bool
  api_statusCode :: "int option"
  api_statusOk :: bool
  api_responseOk :: "bool option"
  api_responseCheckDetails :: "check_details option"
  api_error :: "string option"

text \<open>
  What settles the promise of one \<open>checkApi\<close> call: the response ended with a status code
  and a body, the request emitted \<open>error\<close> or \<open>timeout\<close>, the timer of the probe expired
  first, or \<open>protocol.get\<close> threw inside the executor, which rejects the promise.
\<close>

datatype http_event =
    Responded int string
  | RequestError string
  | RequestTimeout
  | TimerExpired
  | GetThrows string

definition api_failure :: "string \<Rightarrow> api_result" where
  "api_failure msg =
     \<lparr>api_success = False, api_statusCode = None, api_statusOk = False,
      api_responseOk = None, api_responseCheckDetails = None, api_error = Some msg\<rparr>"

text \<open>
  The inner \<open>try\<close> of the response handler: parse, resolve the path, compare. A body that
  does not parse, or a throw while resolving, is the \<open>catch\<close> branch. \<open>JSON.parse\<close> is
  the parameter \<open>parse\<close>, the runtime's prototype chains the parameter \<open>rt\<close>.
\<close>

definition body_check ::
  "runtime \<Rightarrow> (string \<Rightarrow> json option) \<Rightarrow> expected_response \<Rightarrow> string
     \<Rightarrow> bool \<times> check_details" where
  "body_check rt parse er body =
     (let failed = (False, \<lparr>cd_path = er_path er, cd_expected = er_value er,
                             cd_actual = Val JNull, cd_match = False, cd_parseError = True\<rparr>)
      in case parse body of
           None \<Rightarrow> failed
         | Some jsonData \<Rightarrow>
             (case getValueByPath rt jsonData (er_path er) of
                Inl e \<Rightarrow> failed
              | Inr actual \<Rightarrow>
                  (let responseOk = strict_eq actual (er_value er)
                   in (responseOk, \<lparr>cd_path = er_path er, cd_expected = er_value er,
                                     cd_actual = actual, cd_match = responseOk,
                                     cd_parseError = False\<rparr>))))"

definition checkApi ::
  "runtime \<Rightarrow> (string \<Rightarrow> json option) \<Rightarrow> http_event \<Rightarrow> int option
     \<Rightarrow> expected_response option \<Rightarrow> fault + api_result" where
  "checkApi rt parse ev expectedStatus expectedResponse =
     (case ev of
        Responded code body \<Rightarrow>
          (let statusOk = (Some code = expectedStatus);
               (responseOk, responseCheckDetails) =
                 (case expectedResponse of
                    None \<Rightarrow> (True, None)
                  | Some er \<Rightarrow>
                      if statusOk
                      then (let (ok, d) = body_check rt parse er body in (ok, Some d))
                      else (True, None))
           in Inr \<lparr>api_success = (statusOk \<and> responseOk), api_statusCode = Some code,
                   api_statusOk = statusOk, api_responseOk = Some responseOk,
                   api_responseCheckDetails = responseCheckDetails, api_error = None\<rparr>)
      | RequestError msg \<Rightarrow> Inr (api_failure msg)
      | RequestTimeout \<Rightarrow> Inr (api_failure ''Timeout'')
      | TimerExpired \<Rightarrow> Inr (api_failure ''Timeout'')
      | GetThrows msg \<Rightarrow> Inl (Thrown msg))"

section \<open>Statuses and configuration scalars\<close>

datatype status = UP | DOWN | DEGRADED | UNHEALTHY | MAINTENANCE | ERROR

text \<open>
  A scalar of the configuration that may be left out: \<open>undefined\<close>, a number or a string.
  \<open>truthy\<close> is its value in a condition, \<open>to_text\<close> its rendering in a template string,
  \<open>js_or\<close> and \<open>js_and\<close> are \<open>||\<close> and \<open>&&\<close>.
\<close>

datatype atom = AUndef | ANum int | AStr string

fun truthy :: "atom \<Rightarrow> bool" where
  "truthy AUndef = False"
| "truthy (ANum n) = (n \<noteq> 0)"
| "truthy (AStr s) = (s \<noteq> [])"

fun to_text :: "atom \<Rightarrow> string" where
  "to_text AUndef = ''undefined''"
| "to_text (ANum n) = show_int n"
| "to_text (AStr s) = s"

definition js_or :: "atom \<Rightarrow> atom \<Rightarrow> atom" where
  "js_or a b = (if truthy a then a else b)"

definition js_and :: "atom \<Rightarrow> atom \<Rightarrow> atom" where
  "js_and a b = (if truthy a then b else a)"

text \<open>An optional string in a condition: \<open>null\<close>, \<open>undefined\<close> and the empty string are false.\<close>

definition str_truthy :: "string option \<Rightarrow> bool" where
  "str_truthy s = (case s of None \<Rightarrow> False | Some t \<Rightarrow> t \<noteq> [])"

text \<open>\<open>interval || 3600000\<close>: one hour when the interval is left out or zero.\<close>

definition interval_or_default :: "int option \<Rightarrow> int" where
  "interval_or_default i = (case i of None \<Rightarrow> 3600000 | Some v \<Rightarrow> if v = 0 then 3600000 else v)"

section \<open>The SSH probe\<close>

text \<open>
  The object \<open>checkSSH\<close> resolves with. \<open>ssh_lastCheck\<close> is the instant whose locale
  rendering the close handler stores; the timeout handler stores none. \<open>ssh_timestamp\<close> is
  the field a cache hit of an SSH target writes onto the object.
\<close>

record ssh_result =
  ssh_success :: bool
  ssh_error :: "string option"
  ssh_motd :: "string option"
  ssh_rebootRequired :: bool
  ssh_updates :: "string option"
  ssh_lastCheck :: "int option"
  ssh_timestamp :: "int option"

text \<open>
  What ends one \<open>checkSSH\<close> call: the 15 second timer, the close of the session with the
  captured output and the first groups of the two pattern matches on it (updates, security
  updates), a throw of \<open>spawn\<close> inside the executor, or the \<open>error\<close> event of the child
  process (the command cannot be spawned). \<open>checkSSH\<close> registers listeners for the output and
  for \<open>close\<close> only, so the \<open>error\<close> event has no listener.
\<close>

datatype ssh_event =
    SshTimedOut
  | SshClosed string "string option" "string option"
  | SpawnThrows string
  | SpawnError string

text \<open>\<open>0 !== +String(updatesMatch[1])\<close> for a run of digits: some digit is not zero.\<close>

definition nonzero_count :: "string \<Rightarrow> bool" where
  "nonzero_count ds = (\<not> list_all (\<lambda>c. c = CHR ''0'') ds)"

definition updates_info :: "string option \<Rightarrow> string option \<Rightarrow> string" where
  "updates_info updatesMatch securityMatch =
     (case updatesMatch of
        None \<Rightarrow> []
      | Some n \<Rightarrow>
          if nonzero_count n
          then n @ '' updates'' @
               (case securityMatch of None \<Rightarrow> [] | Some m \<Rightarrow> '' ('' @ m @ '' security)'')
          else [])"

definition checkSSH :: "ssh_event \<Rightarrow> int \<Rightarrow> fault + ssh_result" where
  "checkSSH ev closedAt =
     (case ev of
        SshTimedOut \<Rightarrow>
          Inr \<lparr>ssh_success = False, ssh_error = Some ''SSH timeout'', ssh_motd = None,
               ssh_rebootRequired = False, ssh_updates = None, ssh_lastCheck = None,
               ssh_timestamp = None\<rparr>
      | SshClosed output updatesMatch securityMatch \<Rightarrow>
          (let updatesInfo = updates_info updatesMatch securityMatch
           in Inr \<lparr>ssh_success = True, ssh_error = None, ssh_motd = Some output,
                   ssh_rebootRequired = str_includes ''System restart required'' output,
                   ssh_updates = (if updatesInfo = [] then None else Some updatesInfo),
                   ssh_lastCheck = Some closedAt, ssh_timestamp = None\<rparr>)
      | SpawnThrows msg \<Rightarrow> Inl (Thrown msg)
      | SpawnError msg \<Rightarrow> Inl (Uncaught msg))"

section \<open>The SSH result cache\<close>

record cache_entry =
  ce_result :: ssh_result
  ce_timestamp :: int

text \<open>
  The state of the monitor that the checks touch: \<open>sshCache\<close>, and a log of the arguments
  of every \<open>checkSSH\<close> call made, kept to count the probes.
\<close>

record monitor =
  sshCache :: "string \<rightharpoonup> cache_entry"
  sshProbes :: "(atom \<times> atom \<times> atom) list"

definition cacheKey :: "atom \<Rightarrow> atom \<Rightarrow> atom \<Rightarrow> string" where
  "cacheKey sshHost sshPort sshUser = to_text sshHost @ '':'' @ to_text sshPort @ '':'' @ to_text sshUser"

text \<open>
  The clock readings and probe outcomes one evaluation meets: the outcome of the ping
  command, the runtime's prototype chains and \<open>JSON.parse\<close>, what ends the API and SSH probes, the instant the SSH session
  closes, \<open>Date.now()\<close> at the cache test and at the store, and the instant rendered into
  the result.
\<close>

record world =
  w_exec :: exec_outcome
  w_runtime :: runtime
  w_parse :: "string \<Rightarrow> json option"
  w_http :: http_event
  w_ssh :: ssh_event
  w_ssh_closed :: int
  w_now_lookup :: int
  w_now_store :: int
  w_now_result :: int

text \<open>
  The cache test and refresh that the SSH and the unified branch both contain. A still
  valid entry is used without a probe; \<open>stamp\<close> tells whether the hit writes
  \<open>sshResult.timestamp\<close> (the SSH branch does, the unified branch does not), which changes
  the object the cache holds. Otherwise \<open>checkSSH\<close> runs and its outcome is stored with
  the time of the store; a probe that fails leaves the cache as it was.
\<close>

definition ssh_lookup ::
  "world \<Rightarrow> bool \<Rightarrow> atom \<Rightarrow> atom \<Rightarrow> atom \<Rightarrow> int \<Rightarrow> monitor \<Rightarrow> (fault + ssh_result) \<times> monitor" where
  "ssh_lookup w stamp sshHost sshPort sshUser checkInterval st =
     (let key = cacheKey sshHost sshPort sshUser;
          valid = (case sshCache st key of
                     None \<Rightarrow> None
                   | Some e \<Rightarrow> if w_now_lookup w - ce_timestamp e < checkInterval then Some e else None)
      in case valid of
           Some e \<Rightarrow>
             if stamp
             then (let sshResult = (ce_result e)\<lparr>ssh_timestamp := Some (ce_timestamp e)\<rparr>
                   in (Inr sshResult,
                       st\<lparr>sshCache := (sshCache st)(key \<mapsto> e\<lparr>ce_result := sshResult\<rparr>)\<rparr>))
             else (Inr (ce_result e), st)
         | None \<Rightarrow>
             (let st1 = st\<lparr>sshProbes := sshProbes st @ [(sshHost, sshPort, sshUser)]\<rparr>
              in case checkSSH (w_ssh w) (w_ssh_closed w) of
                   Inl msg \<Rightarrow> (Inl msg, st1)
                 | Inr sshResult \<Rightarrow>
                     (Inr sshResult,
                      st1\<lparr>sshCache := (sshCache st1)(key \<mapsto>
                             \<lparr>ce_result = sshResult, ce_timestamp = w_now_store w\<rparr>)\<rparr>)))"

section \<open>Targets and results\<close>

record ssh_config =
  sc_enabled :: bool
  sc_host :: atom
  sc_port :: atom
  sc_username :: atom
  sc_checkInterval :: "int option"

text \<open>One entry of \<open>config.servers\<close> that is checked; a field left out is \<open>None\<close> or \<open>AUndef\<close>.\<close>

record server =
  sv_name :: string
  sv_type :: string
  sv_target :: string
  sv_timeout :: int
  sv_host :: atom
  sv_port :: atom
  sv_username :: atom
  sv_sshCheckInterval :: "int option"
  sv_apiTarget :: string
  sv_expectedStatus :: "int option"
  sv_expectedResponse :: "expected_response option"
  sv_ssh :: "ssh_config option"
  sv_lastCheck :: "string option"
  sv_groupName :: "string option"

text \<open>The code column: the tick, cross and warning signs, an HTTP code, or \<open>N/A\<close>.\<close>

datatype code_label = Tick | Cross | Warn | HttpCode int | NotAvailable

text \<open>The time column: the locale rendering of an instant, or the text the target configures.\<close>

datatype timestr = LocaleTime int | ConfigText string

record ssh_details =
  sd_rebootRequired :: bool
  sd_updates :: "string option"

record api_details =
  ad_statusOk :: bool
  ad_responseOk :: "bool option"
  ad_responseCheckDetails :: "check_details option"
  ad_statusDetails :: "string option"

record all_details =
  ld_pingOk :: bool
  ld_apiStatusOk :: bool
  ld_responseOk :: "bool option"
  ld_responseCheckDetails :: "check_details option"
  ld_statusDetails :: "string option"
  ld_sshRebootRequired :: "bool option"
  ld_sshUpdates :: "string option"

datatype details = SshDetails ssh_details | ApiDetails api_details | AllDetails all_details

record check_result =
  cr_name :: string
  cr_type :: string
  cr_target :: string
  cr_status :: status
  cr_statusCode :: code_label
  cr_lastCheck :: timestr
  cr_error :: "string option"
  cr_details :: "details option"
  cr_sshInfo :: "ssh_result option"
  cr_groupName :: "string option"

text \<open>\<open>server.lastCheck || this.getLocaleTimeString()\<close>\<close>

definition lastCheck_or_now :: "string option \<Rightarrow> int \<Rightarrow> timestr" where
  "lastCheck_or_now configured now =
     (case configured of
        None \<Rightarrow> LocaleTime now
      | Some t \<Rightarrow> if t = [] then LocaleTime now else ConfigText t)"

text \<open>\<open>apiResult.statusCode || 'N/A'\<close>, as a label and inside a template string.\<close>

definition code_or_na :: "int option \<Rightarrow> code_label" where
  "code_or_na c = (case c of None \<Rightarrow> NotAvailable | Some n \<Rightarrow> if n = 0 then NotAvailable else HttpCode n)"

definition code_or_na_text :: "int option \<Rightarrow> string" where
  "code_or_na_text c = (case c of None \<Rightarrow> ''N/A'' | Some n \<Rightarrow> if n = 0 then ''N/A'' else show_int n)"

definition opt_int_text :: "string \<Rightarrow> int option \<Rightarrow> string" where
  "opt_int_text missing c = (case c of None \<Rightarrow> missing | Some n \<Rightarrow> show_int n)"

section \<open>Probe fusion\<close>

text \<open>The status and detail the API branch of \<open>checkServer\<close> chooses before building the result.\<close>

definition api_rules :: "api_result \<Rightarrow> int option \<Rightarrow> status \<times> string option" where
  "api_rules apiResult expectedStatus =
     (if \<not> api_statusOk apiResult \<and> api_responseOk apiResult = None
      then (DOWN, Some (''HTTP '' @ code_or_na_text (api_statusCode apiResult)))
      else if \<not> api_statusOk apiResult
      then (DOWN, Some (''HTTP '' @ opt_int_text ''null'' (api_statusCode apiResult)
                        @ '' (expected '' @ opt_int_text ''undefined'' expectedStatus @ '')''))
      else if api_responseOk apiResult = Some False
      then (UNHEALTHY, Some ''Health check failed'')
      else (UP, None))"

text \<open>The status the API result carries: \<open>apiResult.success ? 'UP' : status\<close>.\<close>

definition api_status :: "api_result \<Rightarrow> int option \<Rightarrow> status" where
  "api_status apiResult expectedStatus =
     (if api_success apiResult then UP else fst (api_rules apiResult expectedStatus))"

record fusion =
  f_status :: status
  f_statusDetails :: "string option"
  f_combinedError :: "string option"

text \<open>The ping and API rules of the unified branch.\<close>

definition unified_rules :: "bool \<Rightarrow> api_result \<Rightarrow> int option \<Rightarrow> fusion" where
  "unified_rules pingOk apiResult expectedStatus =
     (if \<not> pingOk \<and> \<not> api_success apiResult
      then \<lparr>f_status = DOWN, f_statusDetails = Some ''Ping failed + API unreachable'',
            f_combinedError = Some ''Both ping and API failed''\<rparr>
      else if \<not> pingOk
      then \<lparr>f_status = DEGRADED, f_statusDetails = Some ''Ping failed but API responding'',
            f_combinedError = Some ''Network issue (ping failed)''\<rparr>
      else if \<not> api_statusOk apiResult \<and> api_responseOk apiResult = None
      then \<lparr>f_status = DEGRADED, f_statusDetails = Some ''Ping OK but API unreachable'',
            f_combinedError =
              (if str_truthy (api_error apiResult) then api_error apiResult
               else Some (''HTTP '' @ code_or_na_text (api_statusCode apiResult)))\<rparr>
      else if \<not> api_statusOk apiResult
      then \<lparr>f_status = DEGRADED,
            f_statusDetails = Some (''Ping OK, HTTP '' @ opt_int_text ''null'' (api_statusCode apiResult)
                                    @ '' (expected '' @ opt_int_text ''undefined'' expectedStatus @ '')''),
            f_combinedError = Some ''API returned wrong status''\<rparr>
      else if api_responseOk apiResult = Some False
      then \<lparr>f_status = UNHEALTHY, f_statusDetails = Some ''Ping OK, health check failed'',
            f_combinedError = Some ''Health check failed''\<rparr>
      else \<lparr>f_status = UP, f_statusDetails = None, f_combinedError = None\<rparr>)"

text \<open>The SSH part that follows them; \<open>None\<close> is no SSH result (SSH not enabled).\<close>

definition ssh_overlay :: "ssh_result option \<Rightarrow> fusion \<Rightarrow> fusion" where
  "ssh_overlay sshResult f =
     (case sshResult of
        None \<Rightarrow> f
      | Some s \<Rightarrow>
          if \<not> ssh_success s
          then (if f_status f = UP
                then \<lparr>f_status = DEGRADED, f_statusDetails = Some ''SSH check failed'',
                      f_combinedError = ssh_error s\<rparr>
                else f)
          else if ssh_rebootRequired s \<or> str_truthy (ssh_updates s)
          then (if f_status f = UP
                then f\<lparr>f_status := MAINTENANCE, f_statusDetails := Some ''Updates/reboot pending''\<rparr>
                else f)
          else f)"

section \<open>Checking one target\<close>

text \<open>
  Each branch of the \<open>try\<close> block of \<open>checkServer\<close>. \<open>Inl\<close> is a probe of the branch
  that failed: rejected (\<open>Thrown\<close>) or ending the process (\<open>Uncaught\<close>).
\<close>

definition check_ping :: "world \<Rightarrow> server \<Rightarrow> check_result" where
  "check_ping w server =
     (let isAlive = ping (w_exec w)
      in \<lparr>cr_name = sv_name server, cr_type = sv_type server, cr_target = sv_target server,
          cr_status = (if isAlive then UP else DOWN),
          cr_statusCode = (if isAlive then Tick else Cross),
          cr_lastCheck = LocaleTime (w_now_result w), cr_error = None, cr_details = None,
          cr_sshInfo = None, cr_groupName = None\<rparr>)"

definition check_ssh :: "world \<Rightarrow> monitor \<Rightarrow> server \<Rightarrow> (fault + check_result) \<times> monitor" where
  "check_ssh w st server =
     (let sshHost = sv_host server;
          sshPort = js_or (sv_port server) (js_and (sv_username server) (ANum 22));
          sshUser = sv_username server;
          checkInterval = interval_or_default (sv_sshCheckInterval server)
      in case ssh_lookup w True sshHost sshPort sshUser checkInterval st of
           (Inl msg, st') \<Rightarrow> (Inl msg, st')
         | (Inr sshResult, st') \<Rightarrow>
             (let (status, statusCode, error) =
                    (if \<not> ssh_success sshResult then (DOWN, Cross, ssh_error sshResult)
                     else if ssh_rebootRequired sshResult \<or> str_truthy (ssh_updates sshResult)
                     then (MAINTENANCE, Warn, None)
                     else (UP, Tick, None))
              in (Inr \<lparr>cr_name = sv_name server, cr_type = sv_type server,
                       cr_target = (if truthy sshUser then to_text sshUser @ ''@'' else [])
                                   @ to_text sshHost
                                   @ (if truthy sshPort then '':'' @ to_text sshPort else []),
                       cr_status = status, cr_statusCode = statusCode,
                       cr_lastCheck = (case ssh_lastCheck sshResult of
                                         Some t \<Rightarrow> LocaleTime t
                                       | None \<Rightarrow> LocaleTime (w_now_result w)),
                       cr_error = error,
                       cr_details = Some (SshDetails
                                     \<lparr>sd_rebootRequired = ssh_rebootRequired sshResult,
                                      sd_updates = ssh_updates sshResult\<rparr>),
                       cr_sshInfo = Some sshResult, cr_groupName = None\<rparr>, st')))"

definition check_api :: "world \<Rightarrow> server \<Rightarrow> fault + check_result" where
  "check_api w server =
     (case checkApi (w_runtime w) (w_parse w) (w_http w) (sv_expectedStatus server) (sv_expectedResponse server) of
        Inl msg \<Rightarrow> Inl msg
      | Inr apiResult \<Rightarrow>
          Inr \<lparr>cr_name = sv_name server, cr_type = sv_type server, cr_target = sv_target server,
               cr_status = api_status apiResult (sv_expectedStatus server),
               cr_statusCode = code_or_na (api_statusCode apiResult),
               cr_lastCheck = lastCheck_or_now (sv_lastCheck server) (w_now_result w),
               cr_error = api_error apiResult,
               cr_details = Some (ApiDetails
                             \<lparr>ad_statusOk = api_statusOk apiResult,
                              ad_responseOk = api_responseOk apiResult,
                              ad_responseCheckDetails = api_responseCheckDetails apiResult,
                              ad_statusDetails = snd (api_rules apiResult (sv_expectedStatus server))\<rparr>),
               cr_sshInfo = None, cr_groupName = None\<rparr>)"

text \<open>The optional SSH check of the unified branch: \<open>Inr None\<close> when SSH is not enabled.\<close>

definition all_ssh :: "world \<Rightarrow> monitor \<Rightarrow> server \<Rightarrow> (fault + ssh_result option) \<times> monitor" where
  "all_ssh w st server =
     (case sv_ssh server of
        None \<Rightarrow> (Inr None, st)
      | Some cfg \<Rightarrow>
          if sc_enabled cfg
          then (let sshHost = js_or (sc_host cfg) (AStr (sv_target server));
                    sshPort = js_or (sc_port cfg) (js_and (sc_username cfg) (ANum 22));
                    sshUser = sc_username cfg;
                    checkInterval = interval_or_default (sc_checkInterval cfg)
                in case ssh_lookup w False sshHost sshPort sshUser checkInterval st of
                     (Inl msg, st') \<Rightarrow> (Inl msg, st')
                   | (Inr sshResult, st') \<Rightarrow> (Inr (Some sshResult), st'))
          else (Inr None, st))"

definition check_all :: "world \<Rightarrow> monitor \<Rightarrow> server \<Rightarrow> (fault + check_result) \<times> monitor" where
  "check_all w st server =
     (let pingResult = ping (w_exec w)
      in case checkApi (w_runtime w) (w_parse w) (w_http w) (sv_expectedStatus server) (sv_expectedResponse server) of
           Inl msg \<Rightarrow> (Inl msg, st)
         | Inr apiResult \<Rightarrow>
             (case all_ssh w st server of
                (Inl msg, st') \<Rightarrow> (Inl msg, st')
              | (Inr sshResult, st') \<Rightarrow>
                  (let pingOk = pingResult;
                       f = ssh_overlay sshResult
                             (unified_rules pingOk apiResult (sv_expectedStatus server))
                   in (Inr \<lparr>cr_name = sv_name server, cr_type = sv_type server,
                            cr_target = sv_target server @ '' / '' @ sv_apiTarget server,
                            cr_status = f_status f,
                            cr_statusCode = (if pingOk then Tick else Cross),
                            cr_lastCheck = lastCheck_or_now (sv_lastCheck server) (w_now_result w),
                            cr_error = f_combinedError f,
                            cr_details = Some (AllDetails
                                          \<lparr>ld_pingOk = pingOk,
                                           ld_apiStatusOk = api_statusOk apiResult,
                                           ld_responseOk = api_responseOk apiResult,
                                           ld_responseCheckDetails = api_responseCheckDetails apiResult,
                                           ld_statusDetails = f_statusDetails f,
                                           ld_sshRebootRequired = map_option ssh_rebootRequired sshResult,
                                           ld_sshUpdates = Option.bind sshResult ssh_updates\<rparr>),
                            cr_sshInfo = sshResult, cr_groupName = None\<rparr>, st'))))"

text \<open>
  The \<open>try\<close> block: the branch of the target's type. \<open>Inr None\<close> is the case where no
  branch matches and \<open>result\<close> stays undefined.
\<close>

definition try_block :: "world \<Rightarrow> monitor \<Rightarrow> server \<Rightarrow> (fault + check_result option) \<times> monitor" where
  "try_block w st server =
     (if sv_type server = ''ping'' then (Inr (Some (check_ping w server)), st)
      else if sv_type server = ''ssh''
      then (case check_ssh w st server of
              (Inl msg, st') \<Rightarrow> (Inl msg, st')
            | (Inr r, st') \<Rightarrow> (Inr (Some r), st'))
      else if sv_type server = ''api''
      then (case check_api w server of
              Inl msg \<Rightarrow> (Inl msg, st)
            | Inr r \<Rightarrow> (Inr (Some r), st))
      else if sv_type server = ''all''
      then (case check_all w st server of
              (Inl msg, st') \<Rightarrow> (Inl msg, st')
            | (Inr r, st') \<Rightarrow> (Inr (Some r), st'))
      else (Inr None, st))"

text \<open>The \<open>catch\<close> block.\<close>

definition error_result :: "world \<Rightarrow> server \<Rightarrow> string \<Rightarrow> check_result" where
  "error_result w server msg =
     \<lparr>cr_name = sv_name server, cr_type = sv_type server, cr_target = sv_target server,
      cr_status = ERROR, cr_statusCode = NotAvailable,
      cr_lastCheck = LocaleTime (w_now_result w), cr_error = Some msg, cr_details = None,
      cr_sshInfo = None, cr_groupName = None\<rparr>"

text \<open>
  \<open>checkServer\<close>: the \<open>try\<close> and \<open>catch\<close>, then the group name is written onto the result.
  \<open>server\<close> is the target object as \<open>checkServer\<close> reads it, its \<open>groupName\<close> as it is when
  that last assignment runs. The \<open>catch\<close> receives what the awaits throw; an \<open>Uncaught\<close>
  error never reaches it. The assignment of the group name is outside the \<open>try\<close>; on an
  undefined result it throws, and the promise of \<open>checkServer\<close> rejects.
\<close>

definition checkServer :: "world \<Rightarrow> monitor \<Rightarrow> server \<Rightarrow> (fault + check_result option) \<times> monitor" where
  "checkServer w st server =
     (let (tried, st') = try_block w st server
      in case tried of
           Inl (Uncaught msg) \<Rightarrow> (Inl (Uncaught msg), st')
         | Inl (Thrown msg) \<Rightarrow>
             (let result = error_result w server msg
              in if str_truthy (sv_groupName server)
                 then (Inr (Some (result\<lparr>cr_groupName := sv_groupName server\<rparr>)), st')
                 else (Inr (Some result), st'))
         | Inr result \<Rightarrow>
             if str_truthy (sv_groupName server)
             then (case result of
                     None \<Rightarrow> (Inl (Thrown ''Cannot set properties of undefined''), st')
                   | Some r \<Rightarrow> (Inr (Some (r\<lparr>cr_groupName := sv_groupName server\<rparr>)), st'))
             else (Inr result, st'))"

section \<open>Checking all targets\<close>

text \<open>
  The entries of \<open>config.servers\<close> are objects, and the list refers to them: one target
  object can be listed more than once. \<open>objects\<close> gives the object at each reference. An
  entry is a target or a group (type \<open>group\<close>) with a name and its targets.
\<close>

type_synonym ref = nat

type_synonym objects = "ref \<Rightarrow> server"

datatype entry = Leaf ref | Group "string option" "ref list"

text \<open>\<open>servers[i].servers[j].groupName = servers[i].name\<close>: a write to the object itself.\<close>

definition set_group :: "objects \<Rightarrow> ref \<Rightarrow> string option \<Rightarrow> objects" where
  "set_group objs r name = objs(r := (objs r)\<lparr>sv_groupName := name\<rparr>)"

text \<open>
  The loop of \<open>checkAllServers\<close> that starts the checks. It yields the started checks in
  the order they are pushed, each with its target and the objects as they are when it is
  started, and the objects as the loop leaves them. An entry of type \<open>group\<close> without a
  list of targets makes the loop throw.
\<close>

fun start_children ::
  "objects \<Rightarrow> string option \<Rightarrow> ref list \<Rightarrow> (ref \<times> objects) list \<times> objects" where
  "start_children objs name [] = ([], objs)"
| "start_children objs name (child # children) =
     (let objs1 = set_group objs child name;
          (started, objs2) = start_children objs1 name children
      in ((child, objs1) # started, objs2))"

fun dispatch :: "objects \<Rightarrow> entry list \<Rightarrow> string + ((ref \<times> objects) list \<times> objects)" where
  "dispatch objs [] = Inr ([], objs)"
| "dispatch objs (Leaf r # rest) =
     (if sv_type (objs r) = ''group'' then Inl ''Cannot read properties of undefined''
      else case dispatch objs rest of
             Inl msg \<Rightarrow> Inl msg
           | Inr (started, final) \<Rightarrow> Inr ((r, objs) # started, final))"
| "dispatch objs (Group name children # rest) =
     (let (first, objs1) = start_children objs name children
      in case dispatch objs1 rest of
           Inl msg \<Rightarrow> Inl msg
         | Inr (started, final) \<Rightarrow> Inr (first @ started, final))"

text \<open>
  A started check runs up to its first \<open>await\<close> at once and the rest after the loop has
  ended. \<open>awaits\<close>: whether \<open>checkServer\<close> reaches an \<open>await\<close> before it reads
  \<open>server.groupName\<close>. A ping, API or unified target awaits its first probe; an SSH target
  awaits only \<open>checkSSH\<close>, that is when the cache has no valid entry; any other type has no
  \<open>await\<close>.
\<close>

definition awaits :: "world \<Rightarrow> monitor \<Rightarrow> server \<Rightarrow> bool" where
  "awaits w st server =
     (if sv_type server = ''ping'' then True
      else if sv_type server = ''ssh''
      then (case sshCache st (cacheKey (sv_host server)
                    (js_or (sv_port server) (js_and (sv_username server) (ANum 22)))
                    (sv_username server)) of
              None \<Rightarrow> True
            | Some e \<Rightarrow> \<not> (w_now_lookup w - ce_timestamp e
                            < interval_or_default (sv_sshCheckInterval server)))
      else if sv_type server = ''api'' then True
      else if sv_type server = ''all'' then True
      else False)"

text \<open>
  The target as a started check reads it: the group name as the loop has left it when the
  check has awaited, as it was at the start otherwise. Nothing writes the other fields.
\<close>

definition target_seen :: "world \<Rightarrow> monitor \<Rightarrow> objects \<Rightarrow> ref \<times> objects \<Rightarrow> server" where
  "target_seen w st final started =
     (case started of
        (r, objs) \<Rightarrow>
          (objs r)\<lparr>sv_groupName :=
                     (if awaits w st (objs r) then sv_groupName (final r)
                      else sv_groupName (objs r))\<rparr>)"

text \<open>
  \<open>Promise.all\<close>: the promises settle in some order, given as the list of their indices.
  A fulfilled promise fills the slot of its index; the first failure fails the whole;
  the result is available (\<open>Some\<close>) only when every slot is filled, and lists the values
  by index.
\<close>

fun settle :: "('e + 'a) list \<Rightarrow> nat list \<Rightarrow> 'a option list \<Rightarrow> ('e + 'a list) option" where
  "settle outcomes [] slots = map_option Inr (those slots)"
| "settle outcomes (i # order) slots =
     (if i < length outcomes
      then (case outcomes ! i of
              Inl msg \<Rightarrow> Some (Inl msg)
            | Inr v \<Rightarrow> settle outcomes order (slots[i := Some v]))
      else settle outcomes order slots)"

definition promise_all :: "('e + 'a) list \<Rightarrow> nat list \<Rightarrow> ('e + 'a list) option" where
  "promise_all outcomes order = settle outcomes order (replicate (length outcomes) None)"

text \<open>
  \<open>checkAllServers\<close>: check \<open>i\<close> runs in the world \<open>worlds i\<close> and meets the monitor in
  the state \<open>states i\<close> (the checks interleave, so the state is whatever the others have
  left); \<open>order\<close> is the order in which the checks end. The value is what is assigned to
  \<open>this.results\<close>: \<open>None\<close> while a check is pending, a failure when the loop or a check
  fails.
\<close>

definition checkAllServers ::
  "(nat \<Rightarrow> world) \<Rightarrow> (nat \<Rightarrow> monitor) \<Rightarrow> objects \<Rightarrow> entry list \<Rightarrow> nat list
     \<Rightarrow> (fault + check_result option list) option" where
  "checkAllServers worlds states objs servers order =
     (case dispatch objs servers of
        Inl msg \<Rightarrow> Some (Inl (Thrown msg))
      | Inr (started, final) \<Rightarrow>
          promise_all
            (map (\<lambda>i. fst (checkServer (worlds i) (states i)
                             (target_seen (worlds i) (states i) final (started ! i))))
                 [0..<length started])
            order)"

text \<open>The types \<open>checkServer\<close> has a branch for.\<close>

definition target_kinds :: "string list" where
  "target_kinds = [''ping'', ''ssh'', ''api'', ''all'']"




section \<open>Sample inputs\<close>

text \<open>\<open>JSON.parse\<close> on the few bodies the examples below use; any other text here does not parse.\<close>

definition sample_parse :: "string \<Rightarrow> json option" where
  "sample_parse body =
     map_of [(''{}'', JObj []), (''null'', JNull), (''[7]'', JArr [JNum 7]), (''true'', JBool True)] body"

text \<open>
  The part of the ECMAScript runtime the examples use. Every parsed value other than null
  inherits the members of \<open>Object.prototype\<close>; \<open>constructor\<close> and the methods are built-in
  functions. A built-in function inherits the accessors \<open>caller\<close> and \<open>arguments\<close> of
  \<open>Function.prototype\<close>, which throw a TypeError. The further members of arrays, strings
  and functions are left out here.
\<close>

definition object_prototype_names :: "string list" where
  "object_prototype_names =
     [''constructor'', ''toString'', ''toLocaleString'', ''valueOf'', ''hasOwnProperty'',
      ''isPrototypeOf'', ''propertyIsEnumerable'', ''__proto__'']"

definition ecma_runtime :: runtime where
  "ecma_runtime =
     \<lparr>rt_inherited = (\<lambda>v p. if p \<in> set object_prototype_names then Got (Native p)
                              else Got Undefined),
      rt_native = (\<lambda>n p. if n \<noteq> ''__proto__'' \<and> (p = ''caller'' \<or> p = ''arguments'')
                           then Throws else Got Undefined)\<rparr>"

text \<open>
  A world in which the ping command fails, the API answers 200 with an empty object and
  the SSH session times out; a unified target without SSH; a monitor with an empty cache.
\<close>

definition sample_world :: world where
  "sample_world =
     \<lparr>w_exec = ExecRejected, w_runtime = ecma_runtime, w_parse = sample_parse, w_http = Responded 200 ''{}'',
      w_ssh = SshTimedOut, w_ssh_closed = 9000, w_now_lookup = 0, w_now_store = 15000,
      w_now_result = 15000\<rparr>"

definition sample_server :: server where
  "sample_server =
     \<lparr>sv_name = ''web'', sv_type = ''all'', sv_target = ''10.0.0.1'', sv_timeout = 1000,
      sv_host = AStr ''10.0.0.1'', sv_port = AUndef, sv_username = AStr ''ubuntu'',
      sv_sshCheckInterval = None, sv_apiTarget = ''http://10.0.0.1/health'',
      sv_expectedStatus = Some 200, sv_expectedResponse = None, sv_ssh = None,
      sv_lastCheck = None, sv_groupName = None\<rparr>"

definition empty_monitor :: monitor where
  "empty_monitor = \<lparr>sshCache = Map.empty, sshProbes = []\<rparr>"

text \<open>The SSH settings of the unified target of the default configuration, and its outcomes.\<close>

definition sample_ssh_config :: ssh_config where
  "sample_ssh_config =
     \<lparr>sc_enabled = True, sc_host = AUndef, sc_port = AUndef, sc_username = AStr ''ubuntu'',
      sc_checkInterval = Some 3600000\<rparr>"

definition ssh_timed_out :: ssh_result where
  "ssh_timed_out =
     \<lparr>ssh_success = False, ssh_error = Some ''SSH timeout'', ssh_motd = None,
      ssh_rebootRequired = False, ssh_updates = None, ssh_lastCheck = None,
      ssh_timestamp = None\<rparr>"

definition ssh_closed_ok :: ssh_result where
  "ssh_closed_ok =
     \<lparr>ssh_success = True, ssh_error = None, ssh_motd = Some ''Welcome'',
      ssh_rebootRequired = False, ssh_updates = None, ssh_lastCheck = Some 9000,
      ssh_timestamp = None\<rparr>"

text \<open>
  Target objects (a ping, an API, a unified and an SSH target), a list with the first
  followed by a group of the next two, a list that names the second object under two
  groups, a list of the ping and the SSH target, a world in which the HTTP client throws
  on the URL, and one in which \<open>ssh\<close> cannot be spawned.
\<close>

definition sample_objects :: objects where
  "sample_objects r =
     (if r = 0 then sample_server\<lparr>sv_name := ''edge'', sv_type := ''ping''\<rparr>
      else if r = 1 then sample_server\<lparr>sv_name := ''db-api'', sv_type := ''api''\<rparr>
      else if r = 2 then sample_server\<lparr>sv_name := ''db-all''\<rparr>
      else sample_server\<lparr>sv_name := ''bastion'', sv_type := ''ssh''\<rparr>)"



definition ssh_entries :: "entry list" where
  "ssh_entries = [Leaf 0, Leaf 3]"


definition sample_states :: "nat \<Rightarrow> monitor" where
  "sample_states i = empty_monitor"

definition throwing_world :: world where
  "throwing_world = sample_world\<lparr>w_http := GetThrows ''Invalid URL''\<rparr>"

definition spawn_error_world :: world where
  "spawn_error_world = sample_world\<lparr>w_ssh := SpawnError ''spawn ssh ENOENT''\<rparr>"

definition spawn_error_worlds :: "nat \<Rightarrow> world" where
  "spawn_error_worlds i = spawn_error_world"

section \<open>Properties\<close>

subsection \<open>Decimal rendering\<close>


lemma digit_char_inj: "a < 10 \<Longrightarrow> b < 10 \<Longrightarrow> digit_char a = digit_char b \<Longrightarrow> a = b"
proof -
  assume a: "a < 10" and b: "b < 10" and e: "digit_char a = digit_char b"
  have d: "distinct ''0123456789''" by simp
  have l: "length ''0123456789'' = 10" by simp
  from e have "''0123456789'' ! a = ''0123456789'' ! b" by (simp only: digit_char_def)
  with d a b l show "a = b" by (metis nth_eq_iff_index_eq)
qed

lemma digit_char_in: "d < 10 \<Longrightarrow> digit_char d \<in> set ''0123456789''"
  unfolding digit_char_def by (rule nth_mem) simp

lemma show_nat_nonempty: "show_nat n \<noteq> []"
  by (subst show_nat.simps) simp

lemma show_nat_digits: "set (show_nat n) \<subseteq> set ''0123456789''"
proof (induction n rule: show_nat.induct)
  case (1 n)
  show ?case
  proof (cases "n < 10")
    case True
    then show ?thesis using digit_char_in [of n] by (subst show_nat.simps) simp
  next
    case False
    have "n mod 10 < 10" by simp
    then have "digit_char (n mod 10) \<in> set ''0123456789''" by (rule digit_char_in)
    with False 1 show ?thesis by (subst show_nat.simps) simp
  qed
qed

lemma show_nat_not_length: "show_nat n \<noteq> ''length''"
proof
  assume "show_nat n = ''length''"
  then have "CHR ''l'' \<in> set (show_nat n)" by simp
  with show_nat_digits [of n] show False by auto
qed

lemma show_nat_inj: "show_nat n = show_nat m \<Longrightarrow> n = m"
proof (induction n arbitrary: m rule: show_nat.induct)
  case (1 n)
  show ?case
  proof (cases "n < 10")
    case n: True
    show ?thesis
    proof (cases "m < 10")
      case True
      with n 1(2) have "digit_char n = digit_char m"
        by (simp add: show_nat.simps [of n] show_nat.simps [of m])
      with n True show ?thesis by (simp only: digit_char_inj)
    next
      case False
      then have "show_nat m = show_nat (m div 10) @ [digit_char (m mod 10)]"
        by (subst show_nat.simps) simp
      moreover from n have "show_nat n = [digit_char n]" by (subst show_nat.simps) simp
      ultimately have "show_nat (m div 10) = []" using 1(2) by simp
      with show_nat_nonempty show ?thesis by blast
    qed
  next
    case n: False
    then have sn: "show_nat n = show_nat (n div 10) @ [digit_char (n mod 10)]"
      by (subst show_nat.simps) simp
    show ?thesis
    proof (cases "m < 10")
      case True
      then have "show_nat m = [digit_char m]" by (subst show_nat.simps) simp
      with sn 1(2) have "show_nat (n div 10) = []" by simp
      with show_nat_nonempty show ?thesis by blast
    next
      case False
      then have sm: "show_nat m = show_nat (m div 10) @ [digit_char (m mod 10)]"
        by (subst show_nat.simps) simp
      from sn sm 1(2) have a: "show_nat (n div 10) = show_nat (m div 10)"
        and b: "digit_char (n mod 10) = digit_char (m mod 10)" by simp_all
      from 1(1) [OF n a] have "n div 10 = m div 10" .
      moreover from b have "n mod 10 = m mod 10" by (simp add: digit_char_inj)
      ultimately show ?thesis by (metis div_mult_mod_eq)
    qed
  qed
qed



lemma distinct_show_nat: "distinct (map show_nat [0..<k])"
proof -
  have "inj_on show_nat (set [0..<k])" by (rule inj_onI) (rule show_nat_inj)
  then show ?thesis by (simp add: distinct_map)
qed

lemma map_of_zip_show_nat_in:
  "n < length xs \<Longrightarrow> map_of (zip (map show_nat [0..<length xs]) xs) (show_nat n) = Some (xs ! n)"
proof -
  assume n: "n < length xs"
  have "map_of (zip (map show_nat [0..<length xs]) xs) (map show_nat [0..<length xs] ! n) = Some (xs ! n)"
    using n by (intro map_of_zip_nth) (simp_all add: distinct_show_nat)
  with n show ?thesis by simp
qed

subsection \<open>Dot-path resolution\<close>








lemma split_dot_nonempty: "split_dot s \<noteq> []"
  by (induction s) (simp_all split: list.splits)






lemma opt_get_index:
  "n < length xs \<Longrightarrow> opt_get rt (Val (JArr xs)) (show_nat n) = Inr (Val (xs ! n))"
  by (simp add: opt_get_def show_nat_not_length map_of_zip_show_nat_in)





subsection \<open>The ping wait parameter\<close>

text \<open>
  C10. The wait parameter handed to the reachability tool is \<open>floor (timeout / 1000)\<close> on
  Linux and the millisecond timeout itself elsewhere, and this is the number that appears
  after \<open>-W\<close> in the command line. Hence on Linux every timeout (a duration, so not
  negative) below 1000 milliseconds gives the wait parameter 0.
\<close>

theorem ping_wait_platform:
  "ping_wait True timeout = timeout div 1000
   \<and> ping_wait False timeout = timeout
   \<and> ping_command isLinux target timeout
       = ''ping -c 1 -W '' @ show_int (ping_wait isLinux timeout) @ '' '' @ target
   \<and> (0 \<le> timeout \<and> timeout < 1000 \<longrightarrow> ping_wait True timeout = 0)"
  by (simp add: ping_wait_def PING_IN_MILLISECONDS_def ping_command_def)

theorem ping_wait_platform_witness:
  "(0::int) \<le> 200 \<and> (200::int) < 1000 \<and> ping_wait True 200 = 0
   \<and> ping_command True ''1.1.1.1'' 200 = ''ping -c 1 -W 0 1.1.1.1''"
proof -
  have bounds: "(0::int) \<le> 200 \<and> (200::int) < 1000" by simp
  have zero: "show_int 0 = ''0''" by (simp add: show_int_def show_nat.simps digit_char_def)
  from ping_wait_platform [of 200 True "''1.1.1.1''"] bounds
  have wait: "ping_wait True 200 = 0"
    and cmd: "ping_command True ''1.1.1.1'' 200
              = ''ping -c 1 -W '' @ show_int (ping_wait True 200) @ '' '' @ ''1.1.1.1''"
    by blast+
  from cmd wait zero have "ping_command True ''1.1.1.1'' 200 = ''ping -c 1 -W 0 1.1.1.1''"
    by simp
  with bounds wait show ?thesis by blast
qed

subsection \<open>The API probe\<close>

lemma checkApi_responded:
  "checkApi rt parse (Responded code body) es er =
     Inr \<lparr>api_success = (Some code = es \<and>
                         (case er of None \<Rightarrow> True
                          | Some e \<Rightarrow> if Some code = es then fst (body_check rt parse e body) else True)),
          api_statusCode = Some code, api_statusOk = (Some code = es),
          api_responseOk = Some (case er of None \<Rightarrow> True
                          | Some e \<Rightarrow> if Some code = es then fst (body_check rt parse e body) else True),
          api_responseCheckDetails =
            (case er of None \<Rightarrow> None
             | Some e \<Rightarrow> if Some code = es then Some (snd (body_check rt parse e body)) else None),
          api_error = None\<rparr>"
  by (simp add: checkApi_def Let_def split: option.splits prod.splits)

text \<open>
  C2 (as the code has it). When the API probe receives a response, \<open>responseOk\<close> is never
  the not-applicable value \<open>null\<close>: if no body assertion is configured or the status code
  does not match, it keeps its initial value \<open>true\<close> and there is no body-check detail;
  the body assertion is evaluated exactly when one is configured and the status matched,
  and \<open>responseOk\<close> is then its verdict. \<open>null\<close> is what the probe reports when there is
  no response (timeout or request error).
\<close>

theorem checkApi_responseOk:
  "(\<exists>r. checkApi rt parse (Responded code body) expectedStatus expectedResponse = Inr r)
   \<and> (\<forall>r. checkApi rt parse (Responded code body) expectedStatus expectedResponse = Inr r \<longrightarrow>
          api_statusOk r = (Some code = expectedStatus)
          \<and> api_responseOk r \<noteq> None
          \<and> (expectedResponse = None \<or> \<not> api_statusOk r \<longrightarrow>
               api_responseOk r = Some True \<and> api_responseCheckDetails r = None)
          \<and> (\<forall>er. expectedResponse = Some er \<and> api_statusOk r \<longrightarrow>
               api_responseOk r = Some (fst (body_check rt parse er body))
               \<and> api_responseCheckDetails r = Some (snd (body_check rt parse er body))))
   \<and> (\<forall>r. (ev = RequestTimeout \<or> ev = TimerExpired \<or> (\<exists>msg. ev = RequestError msg))
          \<and> checkApi rt parse ev expectedStatus expectedResponse = Inr r \<longrightarrow>
          api_responseOk r = None \<and> \<not> api_statusOk r)"
proof -
  have other: "api_responseOk r = None \<and> \<not> api_statusOk r"
    if "ev = RequestTimeout \<or> ev = TimerExpired \<or> (\<exists>msg. ev = RequestError msg)"
       "checkApi rt parse ev expectedStatus expectedResponse = Inr r" for r
    using that by (auto simp: checkApi_def api_failure_def)
  have ex: "\<exists>r. checkApi rt parse (Responded code body) expectedStatus expectedResponse = Inr r"
    by (subst checkApi_responded) (rule exI, rule refl)
  have resp: "api_statusOk r = (Some code = expectedStatus)
          \<and> api_responseOk r \<noteq> None
          \<and> (expectedResponse = None \<or> \<not> api_statusOk r \<longrightarrow>
               api_responseOk r = Some True \<and> api_responseCheckDetails r = None)
          \<and> (\<forall>er. expectedResponse = Some er \<and> api_statusOk r \<longrightarrow>
               api_responseOk r = Some (fst (body_check rt parse er body))
               \<and> api_responseCheckDetails r = Some (snd (body_check rt parse er body)))"
    if "checkApi rt parse (Responded code body) expectedStatus expectedResponse = Inr r" for r
    using that by (cases expectedResponse) (auto simp: checkApi_responded)
  from ex resp other show ?thesis by blast
qed

theorem checkApi_responseOk_witness:
  "checkApi ecma_runtime sample_parse (Responded 500 ''oops'') (Some 200) None
     = Inr \<lparr>api_success = False, api_statusCode = Some 500, api_statusOk = False,
            api_responseOk = Some True, api_responseCheckDetails = None, api_error = None\<rparr>
   \<and> checkApi ecma_runtime sample_parse TimerExpired (Some 200) None = Inr (api_failure ''Timeout'')
   \<and> api_responseOk (api_failure ''Timeout'') = None"
proof -
  let ?r = "\<lparr>api_success = False, api_statusCode = Some 500, api_statusOk = False,
            api_responseOk = Some True, api_responseCheckDetails = None, api_error = None\<rparr>"
  have a: "checkApi ecma_runtime sample_parse (Responded 500 ''oops'') (Some 200) None = Inr ?r"
    by (simp add: checkApi_def)
  have b: "checkApi ecma_runtime sample_parse TimerExpired (Some 200) None = Inr (api_failure ''Timeout'')"
    by (simp add: checkApi_def)
  from checkApi_responseOk [of ecma_runtime sample_parse 500 "''oops''" "Some 200" None TimerExpired] a b
  show ?thesis by simp
qed

text \<open>
  C2 as stated fails: a response with status 500 where 200 is expected and no assertion is
  configured gives \<open>responseOk = true\<close>, not the not-applicable value.
\<close>

theorem checkApi_responseOk_counterexample:
  "checkApi ecma_runtime sample_parse (Responded 500 ''oops'') (Some 200) None
     = Inr \<lparr>api_success = False, api_statusCode = Some 500, api_statusOk = False,
            api_responseOk = Some True, api_responseCheckDetails = None, api_error = None\<rparr>
   \<and> Some True \<noteq> (None :: bool option)"
  by (simp add: checkApi_def)

lemma checkApi_other:
  "checkApi rt parse (RequestError msg) es er = Inr (api_failure msg)"
  "checkApi rt parse RequestTimeout es er = Inr (api_failure ''Timeout'')"
  "checkApi rt parse TimerExpired es er = Inr (api_failure ''Timeout'')"
  "checkApi rt parse (GetThrows msg) es er = Inl (Thrown msg)"
  by (simp_all add: checkApi_def)

lemma checkApi_consistent:
  assumes "checkApi rt parse ev es er = Inr r"
  shows "api_success r = (api_statusOk r \<and> api_responseOk r = Some True)
         \<and> (api_error r \<noteq> None) = (api_responseOk r = None)
         \<and> (api_error r \<noteq> None \<longrightarrow> \<not> api_statusOk r \<and> api_statusCode r = None)
         \<and> (api_error r = None \<longrightarrow> api_statusCode r \<noteq> None)"
proof (cases ev)
  case (Responded code body)
  with assms have "r = \<lparr>api_success = (Some code = es \<and>
                         (case er of None \<Rightarrow> True
                          | Some e \<Rightarrow> if Some code = es then fst (body_check rt parse e body) else True)),
          api_statusCode = Some code, api_statusOk = (Some code = es),
          api_responseOk = Some (case er of None \<Rightarrow> True
                          | Some e \<Rightarrow> if Some code = es then fst (body_check rt parse e body) else True),
          api_responseCheckDetails =
            (case er of None \<Rightarrow> None
             | Some e \<Rightarrow> if Some code = es then Some (snd (body_check rt parse e body)) else None),
          api_error = None\<rparr>"
    by (simp add: checkApi_responded)
  then show ?thesis by simp
next
  case (RequestError msg)
  with assms have "r = api_failure msg" by (simp add: checkApi_other)
  then show ?thesis by (simp add: api_failure_def)
next
  case RequestTimeout
  with assms have "r = api_failure ''Timeout''" by (simp add: checkApi_other)
  then show ?thesis by (simp add: api_failure_def)
next
  case TimerExpired
  with assms have "r = api_failure ''Timeout''" by (simp add: checkApi_other)
  then show ?thesis by (simp add: api_failure_def)
next
  case (GetThrows msg)
  with assms show ?thesis by (simp add: checkApi_other)
qed

lemma api_rules_status:
  "fst (api_rules r es) =
     (if \<not> api_statusOk r then DOWN else if api_responseOk r = Some False then UNHEALTHY else UP)"
  by (simp add: api_rules_def)

lemma check_api_result:
  assumes "check_api w sv = Inr res"
  shows "\<exists>r. checkApi (w_runtime w) (w_parse w) (w_http w) (sv_expectedStatus sv) (sv_expectedResponse sv) = Inr r
            \<and> cr_status res = api_status r (sv_expectedStatus sv)
            \<and> cr_error res = api_error r
            \<and> cr_details res = Some (ApiDetails
                  \<lparr>ad_statusOk = api_statusOk r, ad_responseOk = api_responseOk r,
                   ad_responseCheckDetails = api_responseCheckDetails r,
                   ad_statusDetails = snd (api_rules r (sv_expectedStatus sv))\<rparr>)"
proof (cases "checkApi (w_runtime w) (w_parse w) (w_http w) (sv_expectedStatus sv) (sv_expectedResponse sv)")
  case (Inl msg)
  with assms show ?thesis by (simp add: check_api_def)
next
  case (Inr r)
  with assms have "res = \<lparr>cr_name = sv_name sv, cr_type = sv_type sv, cr_target = sv_target sv,
               cr_status = api_status r (sv_expectedStatus sv),
               cr_statusCode = code_or_na (api_statusCode r),
               cr_lastCheck = lastCheck_or_now (sv_lastCheck sv) (w_now_result w),
               cr_error = api_error r,
               cr_details = Some (ApiDetails
                             \<lparr>ad_statusOk = api_statusOk r,
                              ad_responseOk = api_responseOk r,
                              ad_responseCheckDetails = api_responseCheckDetails r,
                              ad_statusDetails = snd (api_rules r (sv_expectedStatus sv))\<rparr>),
               cr_sshInfo = None, cr_groupName = None\<rparr>"
    by (simp add: check_api_def)
  with Inr show ?thesis by simp
qed

subsection \<open>Fusion for API targets\<close>

text \<open>
  C5. For an API target every combination of \<open>statusOk\<close>, the three-valued \<open>responseOk\<close>
  and the error gives one status: Down when the status did not match, Unhealthy when it
  matched and \<open>responseOk\<close> is false, Up otherwise; \<open>success ? 'UP' : status\<close> keeps it,
  \<open>success\<close> being \<open>statusOk && responseOk\<close>. With a status mismatch the detail is
  \<open>HTTP <code or N/A>\<close> when \<open>responseOk\<close> is not applicable and
  \<open>HTTP <actual> (expected <expected>)\<close> otherwise. On the outcomes the probe produces, a
  transport failure gives Down, the detail \<open>HTTP N/A\<close> and the transport error as the error
  of the result, and a mismatch without transport failure gives the expected-versus-actual
  detail.
\<close>

theorem api_rules_table:
  "fst (api_rules r es) =
     (if \<not> api_statusOk r then DOWN else if api_responseOk r = Some False then UNHEALTHY else UP)
   \<and> (api_success r = (api_statusOk r \<and> api_responseOk r = Some True) \<longrightarrow>
        api_status r es = fst (api_rules r es))
   \<and> (\<not> api_statusOk r \<and> api_responseOk r = None \<longrightarrow>
        snd (api_rules r es) = Some (''HTTP '' @ code_or_na_text (api_statusCode r)))
   \<and> (\<not> api_statusOk r \<and> api_responseOk r \<noteq> None \<longrightarrow>
        snd (api_rules r es) = Some (''HTTP '' @ opt_int_text ''null'' (api_statusCode r)
                                     @ '' (expected '' @ opt_int_text ''undefined'' es @ '')''))
   \<and> (check_api w sv = Inr res \<longrightarrow>
        (\<exists>a. checkApi (w_runtime w) (w_parse w) (w_http w) (sv_expectedStatus sv) (sv_expectedResponse sv) = Inr a
            \<and> cr_status res = (if \<not> api_statusOk a then DOWN
                               else if api_responseOk a = Some False then UNHEALTHY else UP)
            \<and> cr_error res = api_error a
            \<and> (\<exists>d. cr_details res = Some (ApiDetails d)
                 \<and> (api_error a \<noteq> None \<longrightarrow>
                      cr_status res = DOWN \<and> ad_statusDetails d = Some ''HTTP N/A'')
                 \<and> (api_error a = None \<and> \<not> api_statusOk a \<longrightarrow>
                      (\<exists>code. api_statusCode a = Some code
                         \<and> ad_statusDetails d =
                             Some (''HTTP '' @ show_int code @ '' (expected ''
                                   @ opt_int_text ''undefined'' (sv_expectedStatus sv) @ '')''))))))"
proof -
  have status: "fst (api_rules r es) =
     (if \<not> api_statusOk r then DOWN else if api_responseOk r = Some False then UNHEALTHY else UP)"
    by (rule api_rules_status)
  have succ: "api_status r es = fst (api_rules r es)"
    if "api_success r = (api_statusOk r \<and> api_responseOk r = Some True)"
    using that by (simp add: api_status_def api_rules_def)
  have d1: "snd (api_rules r es) = Some (''HTTP '' @ code_or_na_text (api_statusCode r))"
    if "\<not> api_statusOk r \<and> api_responseOk r = None"
    using that by (simp add: api_rules_def)
  have d2: "snd (api_rules r es) = Some (''HTTP '' @ opt_int_text ''null'' (api_statusCode r)
                                     @ '' (expected '' @ opt_int_text ''undefined'' es @ '')'')"
    if "\<not> api_statusOk r \<and> api_responseOk r \<noteq> None"
    using that by (auto simp: api_rules_def)
  have probe: "\<exists>a. checkApi (w_runtime w) (w_parse w) (w_http w) (sv_expectedStatus sv) (sv_expectedResponse sv) = Inr a
            \<and> cr_status res = (if \<not> api_statusOk a then DOWN
                               else if api_responseOk a = Some False then UNHEALTHY else UP)
            \<and> cr_error res = api_error a
            \<and> (\<exists>d. cr_details res = Some (ApiDetails d)
                 \<and> (api_error a \<noteq> None \<longrightarrow>
                      cr_status res = DOWN \<and> ad_statusDetails d = Some ''HTTP N/A'')
                 \<and> (api_error a = None \<and> \<not> api_statusOk a \<longrightarrow>
                      (\<exists>code. api_statusCode a = Some code
                         \<and> ad_statusDetails d =
                             Some (''HTTP '' @ show_int code @ '' (expected ''
                                   @ opt_int_text ''undefined'' (sv_expectedStatus sv) @ '')''))))"
    if res: "check_api w sv = Inr res"
  proof -
    let ?es = "sv_expectedStatus sv"
    from check_api_result [OF res] obtain a where
      a: "checkApi (w_runtime w) (w_parse w) (w_http w) ?es (sv_expectedResponse sv) = Inr a"
      and st: "cr_status res = api_status a ?es"
      and er: "cr_error res = api_error a"
      and de: "cr_details res = Some (ApiDetails
                  \<lparr>ad_statusOk = api_statusOk a, ad_responseOk = api_responseOk a,
                   ad_responseCheckDetails = api_responseCheckDetails a,
                   ad_statusDetails = snd (api_rules a ?es)\<rparr>)"
      by blast
    note c = checkApi_consistent [OF a]
    from c have st': "api_status a ?es = fst (api_rules a ?es)"
      by (simp add: api_status_def api_rules_def)
    have s1: "cr_status res = (if \<not> api_statusOk a then DOWN
                               else if api_responseOk a = Some False then UNHEALTHY else UP)"
      using st st' by (simp add: api_rules_status)
    have t1: "cr_status res = DOWN \<and> snd (api_rules a ?es) = Some ''HTTP N/A''"
      if "api_error a \<noteq> None"
      using that c s1 by (simp add: api_rules_def code_or_na_text_def)
    have t2: "\<exists>code. api_statusCode a = Some code
                 \<and> snd (api_rules a ?es) =
                     Some (''HTTP '' @ show_int code @ '' (expected ''
                           @ opt_int_text ''undefined'' ?es @ '')'')"
      if "api_error a = None \<and> \<not> api_statusOk a"
    proof -
      from that c obtain code where "api_statusCode a = Some code" and "api_responseOk a \<noteq> None"
        by auto
      with that show ?thesis by (auto simp: api_rules_def opt_int_text_def)
    qed
    from a s1 er de t1 t2 show ?thesis by simp
  qed
  from status succ d1 d2 probe show ?thesis by blast
qed

lemma show_int_500: "show_int 500 = ''500''" and show_int_200: "show_int 200 = ''200''"
  by (simp_all add: show_int_def show_nat.simps digit_char_def)

theorem api_rules_table_witness:
  "api_status (api_failure ''Timeout'') (Some 200) = DOWN
   \<and> snd (api_rules (api_failure ''Timeout'') (Some 200)) = Some ''HTTP N/A''
   \<and> (\<exists>res d. check_api (sample_world\<lparr>w_http := Responded 500 ''oops''\<rparr>)
                        (sample_server\<lparr>sv_type := ''api''\<rparr>) = Inr res
         \<and> cr_status res = DOWN \<and> cr_error res = None
         \<and> cr_details res = Some (ApiDetails d)
         \<and> ad_statusDetails d = Some ''HTTP 500 (expected 200)'')
   \<and> (\<exists>res d. check_api (sample_world\<lparr>w_http := RequestError ''ECONNREFUSED''\<rparr>)
                        (sample_server\<lparr>sv_type := ''api''\<rparr>) = Inr res
         \<and> cr_status res = DOWN \<and> cr_error res = Some ''ECONNREFUSED''
         \<and> cr_details res = Some (ApiDetails d)
         \<and> ad_statusDetails d = Some ''HTTP N/A'')"
proof -
  let ?w1 = "sample_world\<lparr>w_http := Responded 500 ''oops''\<rparr>"
  let ?w2 = "sample_world\<lparr>w_http := RequestError ''ECONNREFUSED''\<rparr>"
  let ?sv = "sample_server\<lparr>sv_type := ''api''\<rparr>"
  let ?f = "api_failure ''Timeout''"
  have f: "api_success ?f = (api_statusOk ?f \<and> api_responseOk ?f = Some True)"
    "\<not> api_statusOk ?f \<and> api_responseOk ?f = None" "api_statusCode ?f = None"
    by (simp_all add: api_failure_def)
  obtain res1 where r1: "check_api ?w1 ?sv = Inr res1"
    by (simp add: check_api_def sample_world_def sample_server_def checkApi_responded)
  have a1: "checkApi (w_runtime ?w1) (w_parse ?w1) (w_http ?w1) (sv_expectedStatus ?sv) (sv_expectedResponse ?sv)
            = Inr \<lparr>api_success = False, api_statusCode = Some 500, api_statusOk = False,
                   api_responseOk = Some True, api_responseCheckDetails = None, api_error = None\<rparr>"
    by (simp add: sample_world_def sample_server_def checkApi_responded)
  obtain res2 where r2: "check_api ?w2 ?sv = Inr res2"
    by (simp add: check_api_def sample_world_def sample_server_def checkApi_other)
  have a2: "checkApi (w_runtime ?w2) (w_parse ?w2) (w_http ?w2) (sv_expectedStatus ?sv) (sv_expectedResponse ?sv)
            = Inr (api_failure ''ECONNREFUSED'')"
    by (simp add: sample_world_def sample_server_def checkApi_other)
  have es: "sv_expectedStatus ?sv = Some 200" by (simp add: sample_server_def)
  from api_rules_table [of ?f "Some 200" ?w1 ?sv res1] f
  have p0: "api_status ?f (Some 200) = DOWN \<and> snd (api_rules ?f (Some 200)) = Some ''HTTP N/A''"
    by (simp add: code_or_na_text_def)
  from api_rules_table [of ?f "Some 200" ?w1 ?sv res1] r1 a1 es
  have p1: "\<exists>d. cr_status res1 = DOWN \<and> cr_error res1 = None \<and> cr_details res1 = Some (ApiDetails d)
         \<and> ad_statusDetails d = Some ''HTTP 500 (expected 200)''"
    by (auto simp: opt_int_text_def show_int_500 show_int_200)
  from api_rules_table [of ?f "Some 200" ?w2 ?sv res2] r2 a2 es
  have p2: "\<exists>d. cr_status res2 = DOWN \<and> cr_error res2 = Some ''ECONNREFUSED''
         \<and> cr_details res2 = Some (ApiDetails d) \<and> ad_statusDetails d = Some ''HTTP N/A''"
    by (auto simp: api_failure_def)
  from p0 p1 p2 r1 r2 show ?thesis by blast
qed

subsection \<open>Fusion for unified targets\<close>

lemma check_all_result:
  assumes "check_all w st sv = (Inr res, st')"
  shows "\<exists>a s. checkApi (w_runtime w) (w_parse w) (w_http w) (sv_expectedStatus sv) (sv_expectedResponse sv) = Inr a
           \<and> all_ssh w st sv = (Inr s, st')
           \<and> cr_status res = f_status (ssh_overlay s (unified_rules (ping (w_exec w)) a (sv_expectedStatus sv)))
           \<and> cr_error res = f_combinedError (ssh_overlay s (unified_rules (ping (w_exec w)) a (sv_expectedStatus sv)))
           \<and> (\<exists>d. cr_details res = Some (AllDetails d)
                 \<and> ld_statusDetails d
                     = f_statusDetails (ssh_overlay s (unified_rules (ping (w_exec w)) a (sv_expectedStatus sv))))
           \<and> cr_sshInfo res = s"
proof (cases "checkApi (w_runtime w) (w_parse w) (w_http w) (sv_expectedStatus sv) (sv_expectedResponse sv)")
  case (Inl msg)
  with assms show ?thesis by (simp add: check_all_def)
next
  case a: (Inr a)
  obtain o1 st1 where o: "all_ssh w st sv = (o1, st1)" by (cases "all_ssh w st sv")
  show ?thesis
  proof (cases o1)
    case (Inl msg)
    with assms a o show ?thesis by (simp add: check_all_def)
  next
    case (Inr s)
    with assms a o have "st1 = st'" by (simp add: check_all_def Let_def)
    moreover from Inr assms a o have
      "res = \<lparr>cr_name = sv_name sv, cr_type = sv_type sv,
              cr_target = sv_target sv @ '' / '' @ sv_apiTarget sv,
              cr_status = f_status (ssh_overlay s (unified_rules (ping (w_exec w)) a (sv_expectedStatus sv))),
              cr_statusCode = (if ping (w_exec w) then Tick else Cross),
              cr_lastCheck = lastCheck_or_now (sv_lastCheck sv) (w_now_result w),
              cr_error = f_combinedError (ssh_overlay s (unified_rules (ping (w_exec w)) a (sv_expectedStatus sv))),
              cr_details = Some (AllDetails
                            \<lparr>ld_pingOk = ping (w_exec w),
                             ld_apiStatusOk = api_statusOk a,
                             ld_responseOk = api_responseOk a,
                             ld_responseCheckDetails = api_responseCheckDetails a,
                             ld_statusDetails = f_statusDetails (ssh_overlay s (unified_rules (ping (w_exec w)) a (sv_expectedStatus sv))),
                             ld_sshRebootRequired = map_option ssh_rebootRequired s,
                             ld_sshUpdates = Option.bind s ssh_updates\<rparr>),
              cr_sshInfo = s, cr_groupName = None\<rparr>"
      by (simp add: check_all_def Let_def)
    ultimately show ?thesis using a o Inr by simp
  qed
qed

lemma unified_rules_status:
  "f_status (unified_rules pingOk a es) \<in> {UP, DOWN, DEGRADED, UNHEALTHY}"
  by (simp add: unified_rules_def)

lemma ssh_overlay_keeps: "f_status base \<noteq> UP \<Longrightarrow> ssh_overlay sshResult base = base"
  by (simp add: ssh_overlay_def split: option.splits)

lemma ssh_overlay_up:
  "f_status base = UP \<Longrightarrow>
   f_status (ssh_overlay (Some s) base)
     = (if \<not> ssh_success s then DEGRADED
        else if ssh_rebootRequired s \<or> str_truthy (ssh_updates s) then MAINTENANCE else UP)"
  by (simp add: ssh_overlay_def)

text \<open>
  C1. In a unified check, a status that the ping and API rules have set to Down, Degraded
  or Unhealthy is not changed by the SSH part, whatever the SSH outcome (nor are the
  details and the error). The SSH part changes the status only when it is still Up: to
  Degraded when the SSH check did not succeed, otherwise to Maintenance, and then
  \<open>rebootRequired\<close> is set or an updates summary is present. The ping and API rules
  produce no other status than these four.
\<close>

theorem ssh_overlay_precedence:
  "(f_status base \<in> {DOWN, DEGRADED, UNHEALTHY} \<longrightarrow> ssh_overlay sshResult base = base)
   \<and> (f_status (ssh_overlay sshResult base) \<noteq> f_status base \<longrightarrow>
        f_status base = UP
        \<and> (\<exists>s. sshResult = Some s
              \<and> (if \<not> ssh_success s then f_status (ssh_overlay sshResult base) = DEGRADED
                  else (ssh_rebootRequired s \<or> str_truthy (ssh_updates s))
                       \<and> f_status (ssh_overlay sshResult base) = MAINTENANCE)))
   \<and> f_status (unified_rules pingOk a es) \<in> {UP, DOWN, DEGRADED, UNHEALTHY}
   \<and> (check_all w st sv = (Inr res, st')
        \<and> checkApi (w_runtime w) (w_parse w) (w_http w) (sv_expectedStatus sv) (sv_expectedResponse sv) = Inr a'
        \<and> f_status (unified_rules (ping (w_exec w)) a' (sv_expectedStatus sv))
            \<in> {DOWN, DEGRADED, UNHEALTHY}
        \<longrightarrow> cr_status res = f_status (unified_rules (ping (w_exec w)) a' (sv_expectedStatus sv))
            \<and> cr_error res = f_combinedError (unified_rules (ping (w_exec w)) a' (sv_expectedStatus sv)))"
proof -
  have keep: "ssh_overlay sshResult base = base" if "f_status base \<in> {DOWN, DEGRADED, UNHEALTHY}"
    using that by (intro ssh_overlay_keeps) auto
  have change: "f_status base = UP
        \<and> (\<exists>s. sshResult = Some s
              \<and> (if \<not> ssh_success s then f_status (ssh_overlay sshResult base) = DEGRADED
                  else (ssh_rebootRequired s \<or> str_truthy (ssh_updates s))
                       \<and> f_status (ssh_overlay sshResult base) = MAINTENANCE))"
    if ch: "f_status (ssh_overlay sshResult base) \<noteq> f_status base"
  proof -
    have up: "f_status base = UP"
    proof (rule ccontr)
      assume "f_status base \<noteq> UP"
      then have "ssh_overlay sshResult base = base" by (rule ssh_overlay_keeps)
      with ch show False by simp
    qed
    from ch obtain s where s: "sshResult = Some s" by (cases sshResult) (auto simp: ssh_overlay_def)
    from ch up s show ?thesis by (auto simp: ssh_overlay_up split: if_splits)
  qed
  have whole: "cr_status res = f_status (unified_rules (ping (w_exec w)) a' (sv_expectedStatus sv))
            \<and> cr_error res = f_combinedError (unified_rules (ping (w_exec w)) a' (sv_expectedStatus sv))"
    if r: "check_all w st sv = (Inr res, st')"
      and a: "checkApi (w_runtime w) (w_parse w) (w_http w) (sv_expectedStatus sv) (sv_expectedResponse sv) = Inr a'"
      and b: "f_status (unified_rules (ping (w_exec w)) a' (sv_expectedStatus sv))
            \<in> {DOWN, DEGRADED, UNHEALTHY}"
  proof -
    from check_all_result [OF r] a obtain s where
      "cr_status res = f_status (ssh_overlay s (unified_rules (ping (w_exec w)) a' (sv_expectedStatus sv)))"
      "cr_error res = f_combinedError (ssh_overlay s (unified_rules (ping (w_exec w)) a' (sv_expectedStatus sv)))"
      by auto
    moreover from b
    have "ssh_overlay s (unified_rules (ping (w_exec w)) a' (sv_expectedStatus sv))
          = unified_rules (ping (w_exec w)) a' (sv_expectedStatus sv)"
      by (intro ssh_overlay_keeps) auto
    ultimately show ?thesis by simp
  qed
  from keep change whole unified_rules_status [of pingOk a es] show ?thesis by blast
qed

lemma sample_api_ok:
  "checkApi (w_runtime sample_world) (w_parse sample_world) (w_http sample_world) (sv_expectedStatus sample_server)
            (sv_expectedResponse sample_server)
   = Inr \<lparr>api_success = True, api_statusCode = Some 200, api_statusOk = True,
          api_responseOk = Some True, api_responseCheckDetails = None, api_error = None\<rparr>"
  by (simp add: sample_world_def sample_server_def checkApi_responded)

lemma sample_ping_fails: "ping (w_exec sample_world) = False"
  by (simp add: sample_world_def ping_def)

lemma sample_checkSSH: "checkSSH (w_ssh sample_world) (w_ssh_closed sample_world) = Inr ssh_timed_out"
  by (simp add: sample_world_def checkSSH_def ssh_timed_out_def)

lemma sample_all_ssh:
  "all_ssh sample_world empty_monitor (sample_server\<lparr>sv_ssh := Some sample_ssh_config\<rparr>)
   = (Inr (Some ssh_timed_out),
      \<lparr>sshCache = [cacheKey (AStr ''10.0.0.1'') (ANum 22) (AStr ''ubuntu'')
                     \<mapsto> \<lparr>ce_result = ssh_timed_out, ce_timestamp = 15000\<rparr>],
       sshProbes = [(AStr ''10.0.0.1'', ANum 22, AStr ''ubuntu'')]\<rparr>)"
proof -
  have h: "js_or (sc_host sample_ssh_config) (AStr (sv_target sample_server)) = AStr ''10.0.0.1''"
    and p: "js_or (sc_port sample_ssh_config) (js_and (sc_username sample_ssh_config) (ANum 22)) = ANum 22"
    by (simp_all add: sample_ssh_config_def sample_server_def js_or_def js_and_def)
  have l: "ssh_lookup sample_world False (AStr ''10.0.0.1'') (ANum 22) (AStr ''ubuntu'') 3600000 empty_monitor
     = (Inr ssh_timed_out,
      \<lparr>sshCache = [cacheKey (AStr ''10.0.0.1'') (ANum 22) (AStr ''ubuntu'')
                     \<mapsto> \<lparr>ce_result = ssh_timed_out, ce_timestamp = 15000\<rparr>],
       sshProbes = [(AStr ''10.0.0.1'', ANum 22, AStr ''ubuntu'')]\<rparr>)"
    by (simp add: ssh_lookup_def Let_def empty_monitor_def sample_checkSSH)
       (simp add: sample_world_def)
  show ?thesis
    using h p l
    by (simp add: all_ssh_def Let_def interval_or_default_def)
       (simp add: sample_ssh_config_def sample_server_def)
qed

theorem ssh_overlay_precedence_witness:
  "f_status (unified_rules False (api_failure ''Timeout'') (Some 200)) \<in> {DOWN, DEGRADED, UNHEALTHY}
   \<and> ssh_overlay (Some ssh_timed_out) (unified_rules False (api_failure ''Timeout'') (Some 200))
       = unified_rules False (api_failure ''Timeout'') (Some 200)
   \<and> f_status (ssh_overlay (Some ssh_timed_out) \<lparr>f_status = UP, f_statusDetails = None, f_combinedError = None\<rparr>)
       = DEGRADED
   \<and> (\<exists>res st'. check_all sample_world empty_monitor (sample_server\<lparr>sv_ssh := Some sample_ssh_config\<rparr>)
                   = (Inr res, st')
         \<and> cr_sshInfo res = Some ssh_timed_out
         \<and> cr_status res = DEGRADED \<and> cr_error res = Some ''Network issue (ping failed)'')"
proof -
  let ?sv = "sample_server\<lparr>sv_ssh := Some sample_ssh_config\<rparr>"
  let ?a = "\<lparr>api_success = True, api_statusCode = Some 200, api_statusOk = True,
          api_responseOk = Some True, api_responseCheckDetails = None, api_error = None\<rparr>"
  let ?up = "\<lparr>f_status = UP, f_statusDetails = None, f_combinedError = None\<rparr>"
  let ?base = "unified_rules False (api_failure ''Timeout'') (Some 200)"
  have b: "f_status ?base \<in> {DOWN, DEGRADED, UNHEALTHY}"
    by (simp add: unified_rules_def api_failure_def)
  have ch: "f_status (ssh_overlay (Some ssh_timed_out) ?up) \<noteq> f_status ?up"
    by (simp add: ssh_overlay_def ssh_timed_out_def)
  have f: "\<not> ssh_success ssh_timed_out" by (simp add: ssh_timed_out_def)
  have a: "checkApi (w_runtime sample_world) (w_parse sample_world) (w_http sample_world) (sv_expectedStatus ?sv)
            (sv_expectedResponse ?sv) = Inr ?a"
    using sample_api_ok by (simp add: sample_server_def)
  have u: "unified_rules (ping (w_exec sample_world)) ?a (sv_expectedStatus ?sv)
           = \<lparr>f_status = DEGRADED, f_statusDetails = Some ''Ping failed but API responding'',
              f_combinedError = Some ''Network issue (ping failed)''\<rparr>"
    by (simp add: unified_rules_def sample_ping_fails)
  obtain res st' where r: "check_all sample_world empty_monitor ?sv = (Inr res, st')"
    and i: "cr_sshInfo res = Some ssh_timed_out"
    using a sample_all_ssh by (simp add: check_all_def Let_def)
  from ssh_overlay_precedence [of ?base "Some ssh_timed_out" False ?a "Some 200"
      sample_world empty_monitor ?sv res st' ?a] b
  have p1: "ssh_overlay (Some ssh_timed_out) ?base = ?base" by blast
  from ssh_overlay_precedence [of ?up "Some ssh_timed_out" False ?a "Some 200"
      sample_world empty_monitor ?sv res st' ?a] ch f
  have p2: "f_status (ssh_overlay (Some ssh_timed_out) ?up) = DEGRADED" by simp
  from ssh_overlay_precedence [of ?up "Some ssh_timed_out" False ?a "Some 200"
      sample_world empty_monitor ?sv res st' ?a] r a u
  have p3: "cr_status res = DEGRADED \<and> cr_error res = Some ''Network issue (ping failed)''"
    by simp
  from b p1 p2 p3 r i show ?thesis by blast
qed

text \<open>
  C6 (as the code has it). In a unified check where the ping fails and the API check
  succeeds (\<open>success\<close>: the status matched and the body assertion passed or was not
  evaluated), the status is Degraded, the status detail is
  \<open>Ping failed but API responding\<close> and the error is \<open>Network issue (ping failed)\<close>,
  whatever the SSH outcome.
\<close>

theorem unified_ping_failed_api_ok:
  "(\<not> pingOk \<and> api_success a \<longrightarrow>
      ssh_overlay sshResult (unified_rules pingOk a es)
        = \<lparr>f_status = DEGRADED, f_statusDetails = Some ''Ping failed but API responding'',
           f_combinedError = Some ''Network issue (ping failed)''\<rparr>)
   \<and> (checkApi (w_runtime w) (w_parse w) (w_http w) (sv_expectedStatus sv) (sv_expectedResponse sv) = Inr a'
        \<longrightarrow> api_success a' = (api_statusOk a' \<and> api_responseOk a' = Some True))
   \<and> (check_all w st sv = (Inr res, st')
        \<and> \<not> ping (w_exec w)
        \<and> checkApi (w_runtime w) (w_parse w) (w_http w) (sv_expectedStatus sv) (sv_expectedResponse sv) = Inr a'
        \<and> api_success a'
        \<longrightarrow> cr_status res = DEGRADED
            \<and> cr_error res = Some ''Network issue (ping failed)''
            \<and> (\<exists>d. cr_details res = Some (AllDetails d)
                  \<and> ld_statusDetails d = Some ''Ping failed but API responding''))"
proof -
  have rules: "ssh_overlay s (unified_rules p b e)
        = \<lparr>f_status = DEGRADED, f_statusDetails = Some ''Ping failed but API responding'',
           f_combinedError = Some ''Network issue (ping failed)''\<rparr>"
    if "\<not> p \<and> api_success b" for s p b e
  proof -
    from that have "unified_rules p b e
        = \<lparr>f_status = DEGRADED, f_statusDetails = Some ''Ping failed but API responding'',
           f_combinedError = Some ''Network issue (ping failed)''\<rparr>"
      by (simp add: unified_rules_def)
    then show ?thesis by (simp add: ssh_overlay_keeps)
  qed
  have cons: "api_success a' = (api_statusOk a' \<and> api_responseOk a' = Some True)"
    if "checkApi (w_runtime w) (w_parse w) (w_http w) (sv_expectedStatus sv) (sv_expectedResponse sv) = Inr a'"
    using checkApi_consistent [OF that] by blast
  have whole: "cr_status res = DEGRADED
            \<and> cr_error res = Some ''Network issue (ping failed)''
            \<and> (\<exists>d. cr_details res = Some (AllDetails d)
                  \<and> ld_statusDetails d = Some ''Ping failed but API responding'')"
    if r: "check_all w st sv = (Inr res, st')" and p: "\<not> ping (w_exec w)"
      and a: "checkApi (w_runtime w) (w_parse w) (w_http w) (sv_expectedStatus sv) (sv_expectedResponse sv) = Inr a'"
      and s: "api_success a'"
  proof -
    from check_all_result [OF r] a obtain s' d where
      "cr_status res = f_status (ssh_overlay s' (unified_rules (ping (w_exec w)) a' (sv_expectedStatus sv)))"
      "cr_error res = f_combinedError (ssh_overlay s' (unified_rules (ping (w_exec w)) a' (sv_expectedStatus sv)))"
      "cr_details res = Some (AllDetails d)"
      "ld_statusDetails d = f_statusDetails (ssh_overlay s' (unified_rules (ping (w_exec w)) a' (sv_expectedStatus sv)))"
      by auto
    with rules [of "ping (w_exec w)" a' s' "sv_expectedStatus sv"] p s show ?thesis by simp
  qed
  from rules [of pingOk a sshResult es] cons whole show ?thesis by blast
qed

theorem unified_ping_failed_api_ok_witness:
  "\<not> ping (w_exec sample_world)
   \<and> (\<exists>a res st'. checkApi (w_runtime sample_world) (w_parse sample_world) (w_http sample_world)
                (sv_expectedStatus (sample_server\<lparr>sv_ssh := Some sample_ssh_config\<rparr>))
                (sv_expectedResponse (sample_server\<lparr>sv_ssh := Some sample_ssh_config\<rparr>)) = Inr a
         \<and> api_success a
         \<and> check_all sample_world empty_monitor (sample_server\<lparr>sv_ssh := Some sample_ssh_config\<rparr>)
             = (Inr res, st')
         \<and> cr_status res = DEGRADED
         \<and> cr_error res = Some ''Network issue (ping failed)''
         \<and> (\<exists>d. cr_details res = Some (AllDetails d)
               \<and> ld_statusDetails d = Some ''Ping failed but API responding''))"
proof -
  let ?sv = "sample_server\<lparr>sv_ssh := Some sample_ssh_config\<rparr>"
  let ?a = "\<lparr>api_success = True, api_statusCode = Some 200, api_statusOk = True,
          api_responseOk = Some True, api_responseCheckDetails = None, api_error = None\<rparr>"
  have p: "\<not> ping (w_exec sample_world)" by (simp add: sample_ping_fails)
  have a: "checkApi (w_runtime sample_world) (w_parse sample_world) (w_http sample_world) (sv_expectedStatus ?sv)
            (sv_expectedResponse ?sv) = Inr ?a"
    using sample_api_ok by (simp add: sample_server_def)
  have s: "api_success ?a" by simp
  obtain res st' where r: "check_all sample_world empty_monitor ?sv = (Inr res, st')"
    using a sample_all_ssh by (simp add: check_all_def Let_def)
  from unified_ping_failed_api_ok [of False ?a "Some ssh_timed_out" "Some 200"
      sample_world ?sv ?a empty_monitor res st'] p a s r
  have "cr_status res = DEGRADED
         \<and> cr_error res = Some ''Network issue (ping failed)''
         \<and> (\<exists>d. cr_details res = Some (AllDetails d)
               \<and> ld_statusDetails d = Some ''Ping failed but API responding'')"
    by blast
  with p a s r show ?thesis by blast
qed

text \<open>
  C6 as stated fails on the detail: neither the status detail nor the error of the result
  is the text \<open>Network issue: ping failed, API responding\<close>.
\<close>

theorem unified_ping_failed_api_ok_counterexample:
  "check_all sample_world empty_monitor sample_server
     = (Inr \<lparr>cr_name = ''web'', cr_type = ''all'',
             cr_target = ''10.0.0.1 / http://10.0.0.1/health'',
             cr_status = DEGRADED, cr_statusCode = Cross, cr_lastCheck = LocaleTime 15000,
             cr_error = Some ''Network issue (ping failed)'',
             cr_details = Some (AllDetails
               \<lparr>ld_pingOk = False, ld_apiStatusOk = True, ld_responseOk = Some True,
                ld_responseCheckDetails = None,
                ld_statusDetails = Some ''Ping failed but API responding'',
                ld_sshRebootRequired = None, ld_sshUpdates = None\<rparr>),
             cr_sshInfo = None, cr_groupName = None\<rparr>, empty_monitor)
   \<and> ''Ping failed but API responding'' \<noteq> ''Network issue: ping failed, API responding''
   \<and> ''Network issue (ping failed)'' \<noteq> ''Network issue: ping failed, API responding''"
proof -
  have s: "all_ssh sample_world empty_monitor sample_server = (Inr None, empty_monitor)"
    by (simp add: all_ssh_def sample_server_def)
  have u: "ssh_overlay None (unified_rules False
             \<lparr>api_success = True, api_statusCode = Some 200, api_statusOk = True,
              api_responseOk = Some True, api_responseCheckDetails = None, api_error = None\<rparr>
             (Some 200))
           = \<lparr>f_status = DEGRADED, f_statusDetails = Some ''Ping failed but API responding'',
              f_combinedError = Some ''Network issue (ping failed)''\<rparr>"
    by (simp add: unified_rules_def ssh_overlay_def)
  have "check_all sample_world empty_monitor sample_server
     = (Inr \<lparr>cr_name = ''web'', cr_type = ''all'',
             cr_target = ''10.0.0.1 / http://10.0.0.1/health'',
             cr_status = DEGRADED, cr_statusCode = Cross, cr_lastCheck = LocaleTime 15000,
             cr_error = Some ''Network issue (ping failed)'',
             cr_details = Some (AllDetails
               \<lparr>ld_pingOk = False, ld_apiStatusOk = True, ld_responseOk = Some True,
                ld_responseCheckDetails = None,
                ld_statusDetails = Some ''Ping failed but API responding'',
                ld_sshRebootRequired = None, ld_sshUpdates = None\<rparr>),
             cr_sshInfo = None, cr_groupName = None\<rparr>, empty_monitor)"
    using sample_api_ok s
    by (simp add: check_all_def Let_def sample_ping_fails)
       (simp add: sample_server_def sample_world_def u lastCheck_or_now_def)
  then show ?thesis by simp
qed

subsection \<open>The SSH result cache\<close>

lemma ssh_lookup_hit:
  assumes "sshCache st (cacheKey h p u) = Some e" and "w_now_lookup w - ce_timestamp e < ttl"
  shows "ssh_lookup w stamp h p u ttl st =
           (if stamp
            then (Inr ((ce_result e)\<lparr>ssh_timestamp := Some (ce_timestamp e)\<rparr>),
                  st\<lparr>sshCache := (sshCache st)(cacheKey h p u \<mapsto>
                        e\<lparr>ce_result := (ce_result e)\<lparr>ssh_timestamp := Some (ce_timestamp e)\<rparr>\<rparr>)\<rparr>)
            else (Inr (ce_result e), st))"
  using assms by (simp add: ssh_lookup_def Let_def)

lemma ssh_lookup_miss:
  assumes "sshCache st (cacheKey h p u) = None
           \<or> (\<exists>e. sshCache st (cacheKey h p u) = Some e \<and> ttl \<le> w_now_lookup w - ce_timestamp e)"
  shows "ssh_lookup w stamp h p u ttl st =
           (case checkSSH (w_ssh w) (w_ssh_closed w) of
              Inl msg \<Rightarrow> (Inl msg, st\<lparr>sshProbes := sshProbes st @ [(h, p, u)]\<rparr>)
            | Inr r \<Rightarrow>
                (Inr r, st\<lparr>sshProbes := sshProbes st @ [(h, p, u)],
                          sshCache := (sshCache st)(cacheKey h p u \<mapsto>
                             \<lparr>ce_result = r, ce_timestamp = w_now_store w\<rparr>)\<rparr>))"
  using assms by (auto simp: ssh_lookup_def Let_def split: sum.splits)

lemma ssh_lookup_probes:
  "sshProbes (snd (ssh_lookup w stamp h p u ttl st)) = sshProbes st
   \<or> sshProbes (snd (ssh_lookup w stamp h p u ttl st)) = sshProbes st @ [(h, p, u)]"
proof (cases "sshCache st (cacheKey h p u)")
  case None
  then show ?thesis by (simp add: ssh_lookup_miss split: sum.splits)
next
  case (Some e)
  show ?thesis
  proof (cases "w_now_lookup w - ce_timestamp e < ttl")
    case True
    with Some show ?thesis by (simp add: ssh_lookup_hit)
  next
    case False
    with Some have "sshCache st (cacheKey h p u) = None
       \<or> (\<exists>e. sshCache st (cacheKey h p u) = Some e \<and> ttl \<le> w_now_lookup w - ce_timestamp e)"
      by simp
    then show ?thesis by (simp add: ssh_lookup_miss split: sum.splits)
  qed
qed

text \<open>
  C4. For one key (host, port, user name): a lookup that finds an entry stored less than
  \<open>ttl\<close> before returns the cached outcome, makes no probe and keeps the entry's fetch
  time; a lookup that finds no entry, or one whose age has reached \<open>ttl\<close>, probes once,
  and when the probe yields an outcome stores it under the key with the time of the
  store, replacing what was there. Hence two lookups, the second less than \<open>ttl\<close> after
  the entry it meets was stored, make at most one probe, and the second returns the cached
  outcome. (\<open>stamp\<close>: the lookup of an SSH target also writes the fetch time onto the
  outcome it returns.)
\<close>

theorem ssh_lookup_cache:
  "(sshCache st (cacheKey h p u) = Some e \<and> w_now_lookup w - ce_timestamp e < ttl \<longrightarrow>
      sshProbes (snd (ssh_lookup w stamp h p u ttl st)) = sshProbes st
      \<and> fst (ssh_lookup w stamp h p u ttl st)
          = Inr (if stamp then (ce_result e)\<lparr>ssh_timestamp := Some (ce_timestamp e)\<rparr>
                 else ce_result e)
      \<and> map_option ce_timestamp (sshCache (snd (ssh_lookup w stamp h p u ttl st)) (cacheKey h p u))
          = Some (ce_timestamp e))
   \<and> (sshCache st (cacheKey h p u) = None
       \<or> (\<exists>e. sshCache st (cacheKey h p u) = Some e \<and> ttl \<le> w_now_lookup w - ce_timestamp e) \<longrightarrow>
      sshProbes (snd (ssh_lookup w stamp h p u ttl st)) = sshProbes st @ [(h, p, u)]
      \<and> (\<forall>r. checkSSH (w_ssh w) (w_ssh_closed w) = Inr r \<longrightarrow>
            fst (ssh_lookup w stamp h p u ttl st) = Inr r
            \<and> sshCache (snd (ssh_lookup w stamp h p u ttl st)) (cacheKey h p u)
                = Some \<lparr>ce_result = r, ce_timestamp = w_now_store w\<rparr>))
   \<and> (\<forall>e1. sshCache (snd (ssh_lookup w stamp h p u ttl st)) (cacheKey h p u) = Some e1
            \<and> w_now_lookup w2 - ce_timestamp e1 < ttl2 \<longrightarrow>
         length (sshProbes (snd (ssh_lookup w2 stamp2 h p u ttl2 (snd (ssh_lookup w stamp h p u ttl st)))))
           \<le> length (sshProbes st) + 1
         \<and> fst (ssh_lookup w2 stamp2 h p u ttl2 (snd (ssh_lookup w stamp h p u ttl st)))
             = Inr (if stamp2 then (ce_result e1)\<lparr>ssh_timestamp := Some (ce_timestamp e1)\<rparr>
                    else ce_result e1))"
proof -
  let ?k = "cacheKey h p u"
  let ?st1 = "snd (ssh_lookup w stamp h p u ttl st)"
  have hit: "sshProbes (snd (ssh_lookup w' s' h p u t' st0)) = sshProbes st0
      \<and> fst (ssh_lookup w' s' h p u t' st0)
          = Inr (if s' then (ce_result e0)\<lparr>ssh_timestamp := Some (ce_timestamp e0)\<rparr>
                 else ce_result e0)
      \<and> map_option ce_timestamp (sshCache (snd (ssh_lookup w' s' h p u t' st0)) ?k)
          = Some (ce_timestamp e0)"
    if "sshCache st0 ?k = Some e0" "w_now_lookup w' - ce_timestamp e0 < t'" for w' s' t' st0 e0
    using that by (simp add: ssh_lookup_hit)
  have miss: "sshProbes ?st1 = sshProbes st @ [(h, p, u)]
      \<and> (\<forall>r. checkSSH (w_ssh w) (w_ssh_closed w) = Inr r \<longrightarrow>
            fst (ssh_lookup w stamp h p u ttl st) = Inr r
            \<and> sshCache ?st1 ?k = Some \<lparr>ce_result = r, ce_timestamp = w_now_store w\<rparr>)"
    if "sshCache st ?k = None
       \<or> (\<exists>e. sshCache st ?k = Some e \<and> ttl \<le> w_now_lookup w - ce_timestamp e)"
    using that by (simp add: ssh_lookup_miss split: sum.splits)
  have two: "length (sshProbes (snd (ssh_lookup w2 stamp2 h p u ttl2 ?st1))) \<le> length (sshProbes st) + 1
         \<and> fst (ssh_lookup w2 stamp2 h p u ttl2 ?st1)
             = Inr (if stamp2 then (ce_result e1)\<lparr>ssh_timestamp := Some (ce_timestamp e1)\<rparr>
                    else ce_result e1)"
    if "sshCache ?st1 ?k = Some e1 \<and> w_now_lookup w2 - ce_timestamp e1 < ttl2" for e1
  proof -
    from that hit [of ?st1 e1 w2 ttl2 stamp2]
    have "sshProbes (snd (ssh_lookup w2 stamp2 h p u ttl2 ?st1)) = sshProbes ?st1"
      and f: "fst (ssh_lookup w2 stamp2 h p u ttl2 ?st1)
             = Inr (if stamp2 then (ce_result e1)\<lparr>ssh_timestamp := Some (ce_timestamp e1)\<rparr>
                    else ce_result e1)"
      by blast+
    moreover from ssh_lookup_probes [of w stamp h p u ttl st]
    have "length (sshProbes ?st1) \<le> length (sshProbes st) + 1" by auto
    ultimately show ?thesis by simp
  qed
  from hit [of st e w ttl stamp] miss two show ?thesis by blast
qed

theorem ssh_lookup_cache_witness:
  "sshCache empty_monitor (cacheKey (AStr ''10.0.0.1'') (ANum 22) (AStr ''ubuntu'')) = None
   \<and> checkSSH (w_ssh sample_world) (w_ssh_closed sample_world) = Inr ssh_timed_out
   \<and> sshProbes (snd (ssh_lookup sample_world False (AStr ''10.0.0.1'') (ANum 22) (AStr ''ubuntu'')
                       3600000 empty_monitor))
       = [(AStr ''10.0.0.1'', ANum 22, AStr ''ubuntu'')]
   \<and> sshCache (snd (ssh_lookup sample_world False (AStr ''10.0.0.1'') (ANum 22) (AStr ''ubuntu'')
                       3600000 empty_monitor))
               (cacheKey (AStr ''10.0.0.1'') (ANum 22) (AStr ''ubuntu''))
       = Some \<lparr>ce_result = ssh_timed_out, ce_timestamp = 15000\<rparr>
   \<and> w_now_lookup (sample_world\<lparr>w_now_lookup := 60000\<rparr>) - 15000 < (3600000 :: int)
   \<and> length (sshProbes (snd (ssh_lookup (sample_world\<lparr>w_now_lookup := 60000\<rparr>) False
                (AStr ''10.0.0.1'') (ANum 22) (AStr ''ubuntu'') 3600000
                (snd (ssh_lookup sample_world False (AStr ''10.0.0.1'') (ANum 22) (AStr ''ubuntu'')
                       3600000 empty_monitor))))) \<le> 1
   \<and> fst (ssh_lookup (sample_world\<lparr>w_now_lookup := 60000\<rparr>) False
                (AStr ''10.0.0.1'') (ANum 22) (AStr ''ubuntu'') 3600000
                (snd (ssh_lookup sample_world False (AStr ''10.0.0.1'') (ANum 22) (AStr ''ubuntu'')
                       3600000 empty_monitor)))
       = Inr ssh_timed_out
   \<and> (3600000 :: int) \<le> w_now_lookup (sample_world\<lparr>w_now_lookup := 3615000, w_now_store := 3630000\<rparr>) - 15000
   \<and> sshProbes (snd (ssh_lookup (sample_world\<lparr>w_now_lookup := 3615000, w_now_store := 3630000\<rparr>) False
             (AStr ''10.0.0.1'') (ANum 22) (AStr ''ubuntu'') 3600000
             \<lparr>sshCache = [cacheKey (AStr ''10.0.0.1'') (ANum 22) (AStr ''ubuntu'')
                      \<mapsto> \<lparr>ce_result = ssh_timed_out, ce_timestamp = 15000\<rparr>],
              sshProbes = [(AStr ''10.0.0.1'', ANum 22, AStr ''ubuntu'')]\<rparr>))
       = [(AStr ''10.0.0.1'', ANum 22, AStr ''ubuntu''), (AStr ''10.0.0.1'', ANum 22, AStr ''ubuntu'')]
   \<and> sshCache (snd (ssh_lookup (sample_world\<lparr>w_now_lookup := 3615000, w_now_store := 3630000\<rparr>) False
             (AStr ''10.0.0.1'') (ANum 22) (AStr ''ubuntu'') 3600000
             \<lparr>sshCache = [cacheKey (AStr ''10.0.0.1'') (ANum 22) (AStr ''ubuntu'')
                      \<mapsto> \<lparr>ce_result = ssh_timed_out, ce_timestamp = 15000\<rparr>],
              sshProbes = [(AStr ''10.0.0.1'', ANum 22, AStr ''ubuntu'')]\<rparr>))
             (cacheKey (AStr ''10.0.0.1'') (ANum 22) (AStr ''ubuntu''))
       = Some \<lparr>ce_result = ssh_timed_out, ce_timestamp = 3630000\<rparr>"
proof -
  let ?h = "AStr ''10.0.0.1''" and ?p = "ANum 22" and ?u = "AStr ''ubuntu''"
  let ?k = "cacheKey ?h ?p ?u"
  let ?e = "\<lparr>ce_result = ssh_timed_out, ce_timestamp = 15000\<rparr>"
  let ?st1 = "\<lparr>sshCache = [?k \<mapsto> ?e], sshProbes = [(?h, ?p, ?u)]\<rparr>"
  let ?w2 = "sample_world\<lparr>w_now_lookup := 60000\<rparr>"
  let ?w3 = "sample_world\<lparr>w_now_lookup := 3615000, w_now_store := 3630000\<rparr>"
  let ?l1 = "ssh_lookup sample_world False ?h ?p ?u 3600000 empty_monitor"
  have none: "sshCache empty_monitor ?k = None" by (simp add: empty_monitor_def)
  have probe: "checkSSH (w_ssh sample_world) (w_ssh_closed sample_world) = Inr ssh_timed_out"
    by (rule sample_checkSSH)
  have probe3: "checkSSH (w_ssh ?w3) (w_ssh_closed ?w3) = Inr ssh_timed_out"
    using sample_checkSSH by simp
  have store: "w_now_store sample_world = 15000" "w_now_store ?w3 = 3630000"
    by (simp_all add: sample_world_def)
  have young: "w_now_lookup ?w2 - 15000 < (3600000 :: int)" by simp
  have old: "(3600000 :: int) \<le> w_now_lookup ?w3 - 15000" by simp
  have c1: "sshCache ?st1 ?k = Some ?e" by simp
  note first = ssh_lookup_cache [of empty_monitor ?h ?p ?u ?e sample_world 3600000 False ?w2 3600000 False]
  from first none probe store
  have a1: "sshProbes (snd ?l1) = [(?h, ?p, ?u)]"
    and a2: "sshCache (snd ?l1) ?k = Some ?e"
    by (simp_all add: empty_monitor_def)
  from first a2 young
  have b1: "length (sshProbes (snd (ssh_lookup ?w2 False ?h ?p ?u 3600000 (snd ?l1)))) \<le> 1"
    and b2: "fst (ssh_lookup ?w2 False ?h ?p ?u 3600000 (snd ?l1)) = Inr ssh_timed_out"
    by (simp_all add: empty_monitor_def)
  from ssh_lookup_cache [of ?st1 ?h ?p ?u ?e ?w3 3600000 False ?w2 3600000 False] c1 old probe3 store
  have d1: "sshProbes (snd (ssh_lookup ?w3 False ?h ?p ?u 3600000 ?st1)) = [(?h, ?p, ?u), (?h, ?p, ?u)]"
    and d2: "sshCache (snd (ssh_lookup ?w3 False ?h ?p ?u 3600000 ?st1)) ?k
             = Some \<lparr>ce_result = ssh_timed_out, ce_timestamp = 3630000\<rparr>"
    by simp_all
  from none probe a1 a2 young b1 b2 old d1 d2 show ?thesis by blast
qed

subsection \<open>Cache hits of SSH targets\<close>

lemma check_ssh_hit:
  assumes "sshCache st (cacheKey (sv_host sv)
             (js_or (sv_port sv) (js_and (sv_username sv) (ANum 22))) (sv_username sv)) = Some e"
    and "w_now_lookup w - ce_timestamp e < interval_or_default (sv_sshCheckInterval sv)"
  shows "\<exists>res. check_ssh w st sv =
           (Inr res,
            st\<lparr>sshCache := (sshCache st)(cacheKey (sv_host sv)
                   (js_or (sv_port sv) (js_and (sv_username sv) (ANum 22))) (sv_username sv) \<mapsto>
                    e\<lparr>ce_result := (ce_result e)\<lparr>ssh_timestamp := Some (ce_timestamp e)\<rparr>\<rparr>)\<rparr>)
         \<and> cr_lastCheck res = (case ssh_lastCheck (ce_result e) of
                                  Some t \<Rightarrow> LocaleTime t
                                | None \<Rightarrow> LocaleTime (w_now_result w))
         \<and> cr_sshInfo res = Some ((ce_result e)\<lparr>ssh_timestamp := Some (ce_timestamp e)\<rparr>)"
  using assms by (simp add: check_ssh_def Let_def ssh_lookup_hit split: prod.splits)

lemma check_ssh_result:
  assumes "ssh_lookup w True h p u ttl st = (Inr r, st')"
    and "sv_host sv = h" and "js_or (sv_port sv) (js_and (sv_username sv) (ANum 22)) = p"
    and "sv_username sv = u" and "interval_or_default (sv_sshCheckInterval sv) = ttl"
  shows "check_ssh w st sv =
     (Inr \<lparr>cr_name = sv_name sv, cr_type = sv_type sv,
            cr_target = (if truthy u then to_text u @ ''@'' else []) @ to_text h
                        @ (if truthy p then '':'' @ to_text p else []),
            cr_status = (if \<not> ssh_success r then DOWN
                         else if ssh_rebootRequired r \<or> str_truthy (ssh_updates r)
                         then MAINTENANCE else UP),
            cr_statusCode = (if \<not> ssh_success r then Cross
                             else if ssh_rebootRequired r \<or> str_truthy (ssh_updates r)
                             then Warn else Tick),
            cr_lastCheck = (case ssh_lastCheck r of
                              Some t \<Rightarrow> LocaleTime t
                            | None \<Rightarrow> LocaleTime (w_now_result w)),
            cr_error = (if \<not> ssh_success r then ssh_error r else None),
            cr_details = Some (SshDetails \<lparr>sd_rebootRequired = ssh_rebootRequired r,
                                           sd_updates = ssh_updates r\<rparr>),
            cr_sshInfo = Some r, cr_groupName = None\<rparr>, st')"
  using assms by (simp add: check_ssh_def Let_def)

lemma show_int_22: "show_int 22 = ''22''"
  by (simp add: show_int_def show_nat.simps digit_char_def)

lemma sample_ssh_port:
  "js_or (sv_port (sample_server\<lparr>sv_type := ''ssh''\<rparr>))
         (js_and (sv_username (sample_server\<lparr>sv_type := ''ssh''\<rparr>)) (ANum 22)) = ANum 22"
  by (simp add: sample_server_def js_or_def js_and_def)

lemma sample_check_ssh_first:
  "snd (check_ssh sample_world empty_monitor (sample_server\<lparr>sv_type := ''ssh''\<rparr>))
   = \<lparr>sshCache = [cacheKey (AStr ''10.0.0.1'') (ANum 22) (AStr ''ubuntu'')
                     \<mapsto> \<lparr>ce_result = ssh_timed_out, ce_timestamp = 15000\<rparr>],
      sshProbes = [(AStr ''10.0.0.1'', ANum 22, AStr ''ubuntu'')]\<rparr>"
proof -
  have l: "ssh_lookup sample_world True (AStr ''10.0.0.1'') (ANum 22) (AStr ''ubuntu'') 3600000 empty_monitor
     = (Inr ssh_timed_out,
      \<lparr>sshCache = [cacheKey (AStr ''10.0.0.1'') (ANum 22) (AStr ''ubuntu'')
                     \<mapsto> \<lparr>ce_result = ssh_timed_out, ce_timestamp = 15000\<rparr>],
       sshProbes = [(AStr ''10.0.0.1'', ANum 22, AStr ''ubuntu'')]\<rparr>)"
    by (simp add: ssh_lookup_def Let_def empty_monitor_def sample_checkSSH)
       (simp add: sample_world_def)
  have "check_ssh sample_world empty_monitor (sample_server\<lparr>sv_type := ''ssh''\<rparr>)
        = (Inr \<lparr>cr_name = sv_name (sample_server\<lparr>sv_type := ''ssh''\<rparr>),
                cr_type = sv_type (sample_server\<lparr>sv_type := ''ssh''\<rparr>),
                cr_target = (if truthy (AStr ''ubuntu'') then to_text (AStr ''ubuntu'') @ ''@'' else [])
                            @ to_text (AStr ''10.0.0.1'')
                            @ (if truthy (ANum 22) then '':'' @ to_text (ANum 22) else []),
                cr_status = (if \<not> ssh_success ssh_timed_out then DOWN
                             else if ssh_rebootRequired ssh_timed_out \<or> str_truthy (ssh_updates ssh_timed_out)
                             then MAINTENANCE else UP),
                cr_statusCode = (if \<not> ssh_success ssh_timed_out then Cross
                                 else if ssh_rebootRequired ssh_timed_out \<or> str_truthy (ssh_updates ssh_timed_out)
                                 then Warn else Tick),
                cr_lastCheck = (case ssh_lastCheck ssh_timed_out of
                                  Some t \<Rightarrow> LocaleTime t
                                | None \<Rightarrow> LocaleTime (w_now_result sample_world)),
                cr_error = (if \<not> ssh_success ssh_timed_out then ssh_error ssh_timed_out else None),
                cr_details = Some (SshDetails \<lparr>sd_rebootRequired = ssh_rebootRequired ssh_timed_out,
                                               sd_updates = ssh_updates ssh_timed_out\<rparr>),
                cr_sshInfo = Some ssh_timed_out, cr_groupName = None\<rparr>,
           \<lparr>sshCache = [cacheKey (AStr ''10.0.0.1'') (ANum 22) (AStr ''ubuntu'')
                     \<mapsto> \<lparr>ce_result = ssh_timed_out, ce_timestamp = 15000\<rparr>],
            sshProbes = [(AStr ''10.0.0.1'', ANum 22, AStr ''ubuntu'')]\<rparr>)"
    by (rule check_ssh_result [OF l])
       (simp_all add: sample_server_def js_or_def js_and_def interval_or_default_def)
  then show ?thesis by simp
qed

text \<open>
  C9 (as the code has it). When the check of an SSH target finds a still valid cache entry,
  no probe runs, and \<open>lastCheck\<close> of the result is the time the cached outcome carries:
  the time captured when the session of the original probe closed. A cached timeout
  outcome carries no such time, and \<open>lastCheck\<close> is then the time of the current check.
  The hit writes the stored fetch time onto the cached outcome, so the object in the cache
  (which is also the \<open>sshInfo\<close> of the result) has it as its \<open>timestamp\<close> afterwards.
\<close>

theorem check_ssh_cache_hit:
  "(sshCache st (cacheKey (sv_host sv)
       (js_or (sv_port sv) (js_and (sv_username sv) (ANum 22))) (sv_username sv)) = Some e
    \<and> w_now_lookup w - ce_timestamp e < interval_or_default (sv_sshCheckInterval sv) \<longrightarrow>
      (\<exists>res st'. check_ssh w st sv = (Inr res, st')
          \<and> sshProbes st' = sshProbes st
          \<and> cr_lastCheck res = (case ssh_lastCheck (ce_result e) of
                                   Some t \<Rightarrow> LocaleTime t
                                 | None \<Rightarrow> LocaleTime (w_now_result w))
          \<and> cr_sshInfo res = Some ((ce_result e)\<lparr>ssh_timestamp := Some (ce_timestamp e)\<rparr>)
          \<and> sshCache st' (cacheKey (sv_host sv)
               (js_or (sv_port sv) (js_and (sv_username sv) (ANum 22))) (sv_username sv))
              = Some (e\<lparr>ce_result := (ce_result e)\<lparr>ssh_timestamp := Some (ce_timestamp e)\<rparr>\<rparr>)))
   \<and> (\<exists>r. checkSSH (SshClosed output updatesMatch securityMatch) closedAt = Inr r
          \<and> ssh_lastCheck r = Some closedAt)
   \<and> (\<exists>r. checkSSH SshTimedOut closedAt = Inr r \<and> ssh_lastCheck r = None)"
proof -
  let ?k = "cacheKey (sv_host sv) (js_or (sv_port sv) (js_and (sv_username sv) (ANum 22))) (sv_username sv)"
  have hit: "\<exists>res st'. check_ssh w st sv = (Inr res, st')
          \<and> sshProbes st' = sshProbes st
          \<and> cr_lastCheck res = (case ssh_lastCheck (ce_result e) of
                                   Some t \<Rightarrow> LocaleTime t
                                 | None \<Rightarrow> LocaleTime (w_now_result w))
          \<and> cr_sshInfo res = Some ((ce_result e)\<lparr>ssh_timestamp := Some (ce_timestamp e)\<rparr>)
          \<and> sshCache st' ?k
              = Some (e\<lparr>ce_result := (ce_result e)\<lparr>ssh_timestamp := Some (ce_timestamp e)\<rparr>\<rparr>)"
    if "sshCache st ?k = Some e"
       "w_now_lookup w - ce_timestamp e < interval_or_default (sv_sshCheckInterval sv)"
  proof -
    from check_ssh_hit [OF that] obtain res where
      "check_ssh w st sv = (Inr res, st\<lparr>sshCache := (sshCache st)(?k \<mapsto>
                    e\<lparr>ce_result := (ce_result e)\<lparr>ssh_timestamp := Some (ce_timestamp e)\<rparr>\<rparr>)\<rparr>)"
      "cr_lastCheck res = (case ssh_lastCheck (ce_result e) of
                                  Some t \<Rightarrow> LocaleTime t
                                | None \<Rightarrow> LocaleTime (w_now_result w))"
      "cr_sshInfo res = Some ((ce_result e)\<lparr>ssh_timestamp := Some (ce_timestamp e)\<rparr>)"
      by blast
    then show ?thesis by simp
  qed
  have closed: "\<exists>r. checkSSH (SshClosed output updatesMatch securityMatch) closedAt = Inr r
          \<and> ssh_lastCheck r = Some closedAt"
    by (simp add: checkSSH_def Let_def)
  have timed: "\<exists>r. checkSSH SshTimedOut closedAt = Inr r \<and> ssh_lastCheck r = None"
    by (simp add: checkSSH_def)
  from hit closed timed show ?thesis by blast
qed

theorem check_ssh_cache_hit_witness:
  "sshCache \<lparr>sshCache = [cacheKey (AStr ''10.0.0.1'') (ANum 22) (AStr ''ubuntu'')
                           \<mapsto> \<lparr>ce_result = ssh_closed_ok, ce_timestamp = 15000\<rparr>],
              sshProbes = [(AStr ''10.0.0.1'', ANum 22, AStr ''ubuntu'')]\<rparr>
      (cacheKey (sv_host (sample_server\<lparr>sv_type := ''ssh''\<rparr>))
         (js_or (sv_port (sample_server\<lparr>sv_type := ''ssh''\<rparr>))
                (js_and (sv_username (sample_server\<lparr>sv_type := ''ssh''\<rparr>)) (ANum 22)))
         (sv_username (sample_server\<lparr>sv_type := ''ssh''\<rparr>)))
     = Some \<lparr>ce_result = ssh_closed_ok, ce_timestamp = 15000\<rparr>
   \<and> w_now_lookup (sample_world\<lparr>w_now_lookup := 60000, w_now_result := 60000\<rparr>) - 15000
       < interval_or_default (sv_sshCheckInterval (sample_server\<lparr>sv_type := ''ssh''\<rparr>))
   \<and> (\<exists>res st'.
         check_ssh (sample_world\<lparr>w_now_lookup := 60000, w_now_result := 60000\<rparr>)
           \<lparr>sshCache = [cacheKey (AStr ''10.0.0.1'') (ANum 22) (AStr ''ubuntu'')
                           \<mapsto> \<lparr>ce_result = ssh_closed_ok, ce_timestamp = 15000\<rparr>],
              sshProbes = [(AStr ''10.0.0.1'', ANum 22, AStr ''ubuntu'')]\<rparr>
           (sample_server\<lparr>sv_type := ''ssh''\<rparr>) = (Inr res, st')
         \<and> sshProbes st' = [(AStr ''10.0.0.1'', ANum 22, AStr ''ubuntu'')]
         \<and> cr_lastCheck res = LocaleTime 9000
         \<and> cr_sshInfo res = Some (ssh_closed_ok\<lparr>ssh_timestamp := Some 15000\<rparr>)
         \<and> sshCache st' (cacheKey (AStr ''10.0.0.1'') (ANum 22) (AStr ''ubuntu''))
             = Some \<lparr>ce_result = ssh_closed_ok\<lparr>ssh_timestamp := Some 15000\<rparr>,
                     ce_timestamp = 15000\<rparr>)"
proof -
  let ?sv = "sample_server\<lparr>sv_type := ''ssh''\<rparr>"
  let ?w2 = "sample_world\<lparr>w_now_lookup := 60000, w_now_result := 60000\<rparr>"
  let ?k = "cacheKey (AStr ''10.0.0.1'') (ANum 22) (AStr ''ubuntu'')"
  let ?e = "\<lparr>ce_result = ssh_closed_ok, ce_timestamp = 15000\<rparr>"
  let ?st = "\<lparr>sshCache = [?k \<mapsto> ?e], sshProbes = [(AStr ''10.0.0.1'', ANum 22, AStr ''ubuntu'')]\<rparr>"
  have key: "cacheKey (sv_host ?sv) (js_or (sv_port ?sv) (js_and (sv_username ?sv) (ANum 22)))
               (sv_username ?sv) = ?k"
    by (simp add: sample_server_def js_or_def js_and_def)
  have c: "sshCache ?st (cacheKey (sv_host ?sv) (js_or (sv_port ?sv) (js_and (sv_username ?sv) (ANum 22)))
               (sv_username ?sv)) = Some ?e"
    by (simp only: key) simp
  have y: "w_now_lookup ?w2 - 15000 < interval_or_default (sv_sshCheckInterval ?sv)"
    by (simp add: sample_server_def interval_or_default_def)
  have lc: "ssh_lastCheck ssh_closed_ok = Some 9000" by (simp add: ssh_closed_ok_def)
  from check_ssh_cache_hit [of ?st ?sv ?e ?w2] c y
  have "\<exists>res st'. check_ssh ?w2 ?st ?sv = (Inr res, st')
          \<and> sshProbes st' = sshProbes ?st
          \<and> cr_lastCheck res = (case ssh_lastCheck (ce_result ?e) of
                                   Some t \<Rightarrow> LocaleTime t
                                 | None \<Rightarrow> LocaleTime (w_now_result ?w2))
          \<and> cr_sshInfo res = Some ((ce_result ?e)\<lparr>ssh_timestamp := Some (ce_timestamp ?e)\<rparr>)
          \<and> sshCache st' (cacheKey (sv_host ?sv)
               (js_or (sv_port ?sv) (js_and (sv_username ?sv) (ANum 22))) (sv_username ?sv))
              = Some (?e\<lparr>ce_result := (ce_result ?e)\<lparr>ssh_timestamp := Some (ce_timestamp ?e)\<rparr>\<rparr>)"
    by simp
  then have "\<exists>res st'. check_ssh ?w2 ?st ?sv = (Inr res, st')
         \<and> sshProbes st' = [(AStr ''10.0.0.1'', ANum 22, AStr ''ubuntu'')]
         \<and> cr_lastCheck res = LocaleTime 9000
         \<and> cr_sshInfo res = Some (ssh_closed_ok\<lparr>ssh_timestamp := Some 15000\<rparr>)
         \<and> sshCache st' ?k
             = Some \<lparr>ce_result = ssh_closed_ok\<lparr>ssh_timestamp := Some 15000\<rparr>, ce_timestamp = 15000\<rparr>"
    by (simp only: key) (simp add: lc)
  with c y show ?thesis by blast
qed

text \<open>
  C9 as stated fails for a cached timeout: the first check times out and is stored at
  15000; the second check, at 60000, hits the cache and reports \<open>lastCheck\<close> 60000, the
  time of the current check.
\<close>

theorem check_ssh_cache_hit_counterexample:
  "snd (check_ssh sample_world empty_monitor (sample_server\<lparr>sv_type := ''ssh''\<rparr>))
     = \<lparr>sshCache = [cacheKey (AStr ''10.0.0.1'') (ANum 22) (AStr ''ubuntu'')
                     \<mapsto> \<lparr>ce_result = ssh_timed_out, ce_timestamp = 15000\<rparr>],
        sshProbes = [(AStr ''10.0.0.1'', ANum 22, AStr ''ubuntu'')]\<rparr>
   \<and> check_ssh (sample_world\<lparr>w_now_lookup := 60000, w_now_result := 60000\<rparr>)
        \<lparr>sshCache = [cacheKey (AStr ''10.0.0.1'') (ANum 22) (AStr ''ubuntu'')
                     \<mapsto> \<lparr>ce_result = ssh_timed_out, ce_timestamp = 15000\<rparr>],
         sshProbes = [(AStr ''10.0.0.1'', ANum 22, AStr ''ubuntu'')]\<rparr>
        (sample_server\<lparr>sv_type := ''ssh''\<rparr>)
     = (Inr \<lparr>cr_name = ''web'', cr_type = ''ssh'', cr_target = ''ubuntu@10.0.0.1:22'',
             cr_status = DOWN, cr_statusCode = Cross, cr_lastCheck = LocaleTime 60000,
             cr_error = Some ''SSH timeout'',
             cr_details = Some (SshDetails \<lparr>sd_rebootRequired = False, sd_updates = None\<rparr>),
             cr_sshInfo = Some (ssh_timed_out\<lparr>ssh_timestamp := Some 15000\<rparr>),
             cr_groupName = None\<rparr>,
        \<lparr>sshCache = [cacheKey (AStr ''10.0.0.1'') (ANum 22) (AStr ''ubuntu'')
                     \<mapsto> \<lparr>ce_result = ssh_timed_out\<lparr>ssh_timestamp := Some 15000\<rparr>,
                           ce_timestamp = 15000\<rparr>],
         sshProbes = [(AStr ''10.0.0.1'', ANum 22, AStr ''ubuntu'')]\<rparr>)
   \<and> w_now_result (sample_world\<lparr>w_now_lookup := 60000, w_now_result := 60000\<rparr>) = 60000"
proof -
  let ?sv = "sample_server\<lparr>sv_type := ''ssh''\<rparr>"
  let ?w2 = "sample_world\<lparr>w_now_lookup := 60000, w_now_result := 60000\<rparr>"
  let ?k = "cacheKey (AStr ''10.0.0.1'') (ANum 22) (AStr ''ubuntu'')"
  let ?e = "\<lparr>ce_result = ssh_timed_out, ce_timestamp = 15000\<rparr>"
  let ?st1 = "\<lparr>sshCache = [?k \<mapsto> ?e], sshProbes = [(AStr ''10.0.0.1'', ANum 22, AStr ''ubuntu'')]\<rparr>"
  have f: "sv_host ?sv = AStr ''10.0.0.1''" "sv_username ?sv = AStr ''ubuntu''"
     "interval_or_default (sv_sshCheckInterval ?sv) = 3600000"
     "sv_name ?sv = ''web''" "sv_type ?sv = ''ssh''"
    by (simp_all add: sample_server_def interval_or_default_def)
  have l: "ssh_lookup ?w2 True (AStr ''10.0.0.1'') (ANum 22) (AStr ''ubuntu'') 3600000 ?st1
           = (Inr (ssh_timed_out\<lparr>ssh_timestamp := Some 15000\<rparr>),
              \<lparr>sshCache = [?k \<mapsto> \<lparr>ce_result = ssh_timed_out\<lparr>ssh_timestamp := Some 15000\<rparr>,
                                   ce_timestamp = 15000\<rparr>],
               sshProbes = [(AStr ''10.0.0.1'', ANum 22, AStr ''ubuntu'')]\<rparr>)"
    by (simp add: ssh_lookup_hit [of ?st1 _ _ _ ?e])
  have t: "ssh_success (ssh_timed_out\<lparr>ssh_timestamp := Some 15000\<rparr>) = False"
    "ssh_error (ssh_timed_out\<lparr>ssh_timestamp := Some 15000\<rparr>) = Some ''SSH timeout''"
    "ssh_lastCheck (ssh_timed_out\<lparr>ssh_timestamp := Some 15000\<rparr>) = None"
    "ssh_rebootRequired (ssh_timed_out\<lparr>ssh_timestamp := Some 15000\<rparr>) = False"
    "ssh_updates (ssh_timed_out\<lparr>ssh_timestamp := Some 15000\<rparr>) = None"
    by (simp_all add: ssh_timed_out_def)
  have "check_ssh ?w2 ?st1 ?sv
        = (Inr \<lparr>cr_name = sv_name ?sv, cr_type = sv_type ?sv,
                cr_target = (if truthy (AStr ''ubuntu'') then to_text (AStr ''ubuntu'') @ ''@'' else [])
                            @ to_text (AStr ''10.0.0.1'')
                            @ (if truthy (ANum 22) then '':'' @ to_text (ANum 22) else []),
                cr_status = (if \<not> ssh_success (ssh_timed_out\<lparr>ssh_timestamp := Some 15000\<rparr>) then DOWN
                             else if ssh_rebootRequired (ssh_timed_out\<lparr>ssh_timestamp := Some 15000\<rparr>)
                                     \<or> str_truthy (ssh_updates (ssh_timed_out\<lparr>ssh_timestamp := Some 15000\<rparr>))
                             then MAINTENANCE else UP),
                cr_statusCode = (if \<not> ssh_success (ssh_timed_out\<lparr>ssh_timestamp := Some 15000\<rparr>) then Cross
                                 else if ssh_rebootRequired (ssh_timed_out\<lparr>ssh_timestamp := Some 15000\<rparr>)
                                         \<or> str_truthy (ssh_updates (ssh_timed_out\<lparr>ssh_timestamp := Some 15000\<rparr>))
                                 then Warn else Tick),
                cr_lastCheck = (case ssh_lastCheck (ssh_timed_out\<lparr>ssh_timestamp := Some 15000\<rparr>) of
                                  Some t \<Rightarrow> LocaleTime t
                                | None \<Rightarrow> LocaleTime (w_now_result ?w2)),
                cr_error = (if \<not> ssh_success (ssh_timed_out\<lparr>ssh_timestamp := Some 15000\<rparr>)
                            then ssh_error (ssh_timed_out\<lparr>ssh_timestamp := Some 15000\<rparr>) else None),
                cr_details = Some (SshDetails
                   \<lparr>sd_rebootRequired = ssh_rebootRequired (ssh_timed_out\<lparr>ssh_timestamp := Some 15000\<rparr>),
                    sd_updates = ssh_updates (ssh_timed_out\<lparr>ssh_timestamp := Some 15000\<rparr>)\<rparr>),
                cr_sshInfo = Some (ssh_timed_out\<lparr>ssh_timestamp := Some 15000\<rparr>), cr_groupName = None\<rparr>,
           \<lparr>sshCache = [?k \<mapsto> \<lparr>ce_result = ssh_timed_out\<lparr>ssh_timestamp := Some 15000\<rparr>,
                           ce_timestamp = 15000\<rparr>],
            sshProbes = [(AStr ''10.0.0.1'', ANum 22, AStr ''ubuntu'')]\<rparr>)"
    by (rule check_ssh_result [OF l])
       (simp_all add: sample_server_def js_or_def js_and_def interval_or_default_def)
  then have second: "check_ssh ?w2 ?st1 ?sv
     = (Inr \<lparr>cr_name = ''web'', cr_type = ''ssh'', cr_target = ''ubuntu@10.0.0.1:22'',
             cr_status = DOWN, cr_statusCode = Cross, cr_lastCheck = LocaleTime 60000,
             cr_error = Some ''SSH timeout'',
             cr_details = Some (SshDetails \<lparr>sd_rebootRequired = False, sd_updates = None\<rparr>),
             cr_sshInfo = Some (ssh_timed_out\<lparr>ssh_timestamp := Some 15000\<rparr>),
             cr_groupName = None\<rparr>,
        \<lparr>sshCache = [?k \<mapsto> \<lparr>ce_result = ssh_timed_out\<lparr>ssh_timestamp := Some 15000\<rparr>,
                           ce_timestamp = 15000\<rparr>],
         sshProbes = [(AStr ''10.0.0.1'', ANum 22, AStr ''ubuntu'')]\<rparr>)"
    by (simp add: t f show_int_22)
  have "w_now_result ?w2 = 60000" by simp
  with sample_check_ssh_first second show ?thesis by blast
qed

subsection \<open>Waiting for all checks, and the loop that starts them\<close>



















lemma upt_two: "[0..<2] = [0, Suc 0]"
  by (simp add: numeral_2_eq_2)

lemma promise_all_two:
  "promise_all [Inr a, Inr b] [0, Suc 0] = Some (Inr [a, b])"
  "promise_all [Inr a, Inl f] [0, Suc 0] = Some (Inl f)"
  by (simp_all add: promise_all_def)


subsection \<open>One check\<close>













lemma checkServer_caught:
  "fst (try_block w st sv) = Inl (Thrown msg) \<Longrightarrow>
   fst (checkServer w st sv)
     = Inr (Some ((error_result w sv msg)
             \<lparr>cr_groupName := (if str_truthy (sv_groupName sv) then sv_groupName sv else None)\<rparr>))"
  by (cases "try_block w st sv") (simp add: checkServer_def error_result_def)

lemma checkServer_uncaught:
  "fst (try_block w st sv) = Inl (Uncaught msg) \<Longrightarrow> fst (checkServer w st sv) = Inl (Uncaught msg)"
  by (cases "try_block w st sv") (simp add: checkServer_def)



lemma checkServer_unknown_type:
  assumes "sv_type sv \<notin> set target_kinds"
  shows "fst (checkServer w st sv)
         = (if str_truthy (sv_groupName sv) then Inl (Thrown ''Cannot set properties of undefined'')
            else Inr None)"
  using assms by (simp add: checkServer_def try_block_def target_kinds_def)

text \<open>
  What \<open>checkServer\<close> does with an exception that reaches one of its awaits: the \<open>catch\<close>
  turns it into a result with status Error, the message, the name of the target and its
  group name.
\<close>

lemma checkServer_catches_thrown:
  "fst (try_block w st sv) = Inl (Thrown msg) \<Longrightarrow>
     \<exists>res. fst (checkServer w st sv) = Inr (Some res)
          \<and> cr_status res = ERROR \<and> cr_error res = Some msg \<and> cr_name res = sv_name sv
          \<and> (str_truthy (sv_groupName sv) \<longrightarrow> cr_groupName res = sv_groupName sv)"
  using checkServer_caught [of w st sv msg] by (simp add: error_result_def)

lemma try_block_get_throws:
  "(sv_type sv = ''api'' \<or> sv_type sv = ''all'') \<Longrightarrow> w_http w = GetThrows msg \<Longrightarrow>
   fst (try_block w st sv) = Inl (Thrown msg)"
  by (auto simp: try_block_def check_api_def check_all_def checkApi_other)

lemma sample_ping_check:
  "fst (checkServer spawn_error_world empty_monitor (sample_objects 0))
   = Inr (Some \<lparr>cr_name = ''edge'', cr_type = ''ping'', cr_target = ''10.0.0.1'',
                 cr_status = DOWN, cr_statusCode = Cross, cr_lastCheck = LocaleTime 15000,
                 cr_error = None, cr_details = None, cr_sshInfo = None, cr_groupName = None\<rparr>)"
  by (simp add: checkServer_def try_block_def check_ping_def Let_def ping_def str_truthy_def
                sample_objects_def sample_server_def spawn_error_world_def sample_world_def)

lemma sample_ssh_uncaught:
  "fst (checkServer spawn_error_world empty_monitor (sample_objects 3))
   = Inl (Uncaught ''spawn ssh ENOENT'')"
proof -
  let ?sv = "sample_objects 3"
  have ty: "sv_type ?sv = ''ssh''" by (simp add: sample_objects_def)
  have e: "checkSSH (w_ssh spawn_error_world) (w_ssh_closed spawn_error_world)
           = Inl (Uncaught ''spawn ssh ENOENT'')"
    by (simp add: spawn_error_world_def checkSSH_def)
  have l: "fst (ssh_lookup spawn_error_world True h p u ttl empty_monitor)
           = Inl (Uncaught ''spawn ssh ENOENT'')" for h p u ttl
    by (simp add: ssh_lookup_miss empty_monitor_def e)
  obtain st1 where l1: "ssh_lookup spawn_error_world True (sv_host ?sv)
        (js_or (sv_port ?sv) (js_and (sv_username ?sv) (ANum 22))) (sv_username ?sv)
        (interval_or_default (sv_sshCheckInterval ?sv)) empty_monitor
      = (Inl (Uncaught ''spawn ssh ENOENT''), st1)"
    using l [of "sv_host ?sv" "js_or (sv_port ?sv) (js_and (sv_username ?sv) (ANum 22))"
                "sv_username ?sv" "interval_or_default (sv_sshCheckInterval ?sv)"]
    by (metis prod.collapse)
  have "fst (check_ssh spawn_error_world empty_monitor ?sv) = Inl (Uncaught ''spawn ssh ENOENT'')"
    unfolding check_ssh_def Let_def l1 by simp
  with ty have "fst (try_block spawn_error_world empty_monitor ?sv) = Inl (Uncaught ''spawn ssh ENOENT'')"
    by (cases "check_ssh spawn_error_world empty_monitor ?sv") (simp add: try_block_def)
  then show ?thesis by (rule checkServer_uncaught)
qed

text \<open>
  C3 (where the code departs from it): \<open>checkSSH\<close> registers a timer and the handlers of
  \<open>close\<close> and of the two output streams, and no handler of the \<open>error\<close> event of the child
  process, which \<open>checkApi\<close> does register on its request. When \<open>ssh\<close> cannot be started
  (\<open>spawn ssh ENOENT\<close>), the event has no listener: it is thrown outside every promise, the
  \<open>catch\<close> of \<open>checkServer\<close> never sees it, and the process ends. On an SSH target with no
  cached result, \<open>checkServer\<close> returns nothing: no result with status Error is produced. The
  ping target checked in the same cycle is evaluated to a result, and the cycle as a whole
  ends with the uncaught error instead of the list of results.
\<close>

theorem checkServer_spawn_error_uncaught:
  "fst (checkServer spawn_error_world empty_monitor (sample_objects 3))
     = Inl (Uncaught ''spawn ssh ENOENT'')
   \<and> fst (checkServer spawn_error_world empty_monitor (sample_objects 0))
       = Inr (Some \<lparr>cr_name = ''edge'', cr_type = ''ping'', cr_target = ''10.0.0.1'',
                     cr_status = DOWN, cr_statusCode = Cross, cr_lastCheck = LocaleTime 15000,
                     cr_error = None, cr_details = None, cr_sshInfo = None,
                     cr_groupName = None\<rparr>)
   \<and> checkAllServers spawn_error_worlds sample_states sample_objects ssh_entries [0, 1]
       = Some (Inl (Uncaught ''spawn ssh ENOENT''))"
proof -
  have d: "dispatch sample_objects ssh_entries
           = Inr ([(0, sample_objects), (3, sample_objects)], sample_objects)"
    by (simp add: ssh_entries_def sample_objects_def sample_server_def)
  have s: "target_seen w st sample_objects (r, sample_objects) = sample_objects r" for w st r
    by (simp add: target_seen_def)
  have c: "checkAllServers spawn_error_worlds sample_states sample_objects ssh_entries [0, 1]
       = Some (Inl (Uncaught ''spawn ssh ENOENT''))"
    unfolding checkAllServers_def d
    by (simp add: upt_two spawn_error_worlds_def sample_states_def s sample_ping_check
                  sample_ssh_uncaught promise_all_two)
  from sample_ssh_uncaught sample_ping_check c show ?thesis by blast
qed

subsection \<open>All checks\<close>











end
